theory Spec2Isabelle
  imports Main
begin

section \<open>JavaScript values used by the screens\<close>

text \<open>
  A JavaScript string is modelled as a \<open>string\<close> whose characters are the code units
  below 256. \<open>isWhiteSpace\<close> is the part of the ECMAScript white space and line
  terminator set that lies in this range; \<open>trim\<close> is \<open>String.prototype.trim\<close>.
  The test \<open>!s\<close> on a string is \<open>s = []\<close>.
\<close>

definition isWhiteSpace :: "char \<Rightarrow> bool" where
  "isWhiteSpace ch = (ch \<in> {CHR 0x09, CHR 0x0A, CHR 0x0B, CHR 0x0C, CHR 0x0D, CHR 0x20, CHR 0xA0})"

definition trim :: "string \<Rightarrow> string" where
  "trim s = rev (dropWhile isWhiteSpace (rev (dropWhile isWhiteSpace s)))"

definition isDigit :: "char \<Rightarrow> bool" where
  "isDigit ch = (48 \<le> (of_char ch :: nat) \<and> (of_char ch :: nat) \<le> 57)"

definition digitsValue :: "string \<Rightarrow> nat" where
  "digitsValue ds = foldl (\<lambda>a ch. 10 * a + (of_char ch - 48)) 0 ds"

text \<open>
  \<open>parseInt(s, 10)\<close>: leading white space is skipped, one sign is read, then the longest
  run of decimal digits; \<open>None\<close> is \<open>NaN\<close> (no digit). What follows the digits is ignored,
  as in JavaScript. The value is kept exact (JavaScript rounds numerals beyond 2^53 to a
  double, which does not change their sign).
\<close>

definition parseInt :: "string \<Rightarrow> int option" where
  "parseInt s =
     (let t = dropWhile isWhiteSpace s;
          neg = (t \<noteq> [] \<and> hd t = CHR ''-'');
          u = (if t \<noteq> [] \<and> (hd t = CHR ''-'' \<or> hd t = CHR ''+'') then tl t else t);
          ds = takeWhile isDigit u
      in if ds = [] then None
         else Some ((if neg then - 1 else 1) * int (digitsValue ds)))"

text \<open>\<open>isNaN(n) || n <= 0\<close> on the result of \<open>parseInt\<close>.\<close>

definition notPositive :: "int option \<Rightarrow> bool" where
  "notPositive n = (case n of None \<Rightarrow> True | Some v \<Rightarrow> v \<le> 0)"

text \<open>
  \<open>String.prototype.toLowerCase\<close> on code units below 256: the ASCII capitals and the
  Latin-1 capitals (all of 0xC0..0xDE but the multiplication sign) move up by 32, that
  is, bit 5, which is clear in both ranges, is set.
\<close>

definition lowerChar :: "char \<Rightarrow> char" where
  "lowerChar ch =
     (let n = (of_char ch :: nat)
      in if (65 \<le> n \<and> n \<le> 90) \<or> (192 \<le> n \<and> n \<le> 222 \<and> n \<noteq> 215)
         then (case ch of Char b0 b1 b2 b3 b4 b5 b6 b7 \<Rightarrow> Char b0 b1 b2 b3 b4 True b6 b7)
         else ch)"

definition toLowerCase :: "string \<Rightarrow> string" where
  "toLowerCase s = map lowerChar s"

text \<open>\<open>x || null\<close> for an optional number and for an optional string.\<close>

definition numOrNull :: "int option \<Rightarrow> int option" where
  "numOrNull x = (case x of None \<Rightarrow> None | Some n \<Rightarrow> if n = 0 then None else Some n)"

definition strOrNull :: "string option \<Rightarrow> string option" where
  "strOrNull x = (case x of None \<Rightarrow> None | Some s \<Rightarrow> if s = [] then None else Some s)"

section \<open>The schema: initializeDatabase (src/unnamed/part_004)\<close>

text \<open>
  One record per table, one field per column; a nullable column is an \<open>option\<close>.
  The surrogate column \<open>id INTEGER PRIMARY KEY AUTOINCREMENT\<close> is left out: no statement
  of the application selects, orders or joins by it (the two \<open>SELECT id\<close> read it only to
  test whether a row exists), so a table is the list of its rows in insertion order.
\<close>

record patient_row =
  p_patientName :: string
  p_age :: "int option"
  p_gender :: string
  p_registrationNumber :: string
  p_location :: "string option"
  p_bedNumber :: "int option"
  p_chiefComplaints :: "string option"
  p_provisionalDiagnosis :: "string option"
  p_miscNotes :: "string option"
  p_reg_date :: "string option"
  p_contact :: string
  p_is_discharged :: int

record task_row =
  t_registrationNumber :: string
  t_lab_type :: "string option"
  t_lab_subtype :: "string option"
  t_date_and_time :: "string option"
  t_imaging_type :: "string option"
  t_imaging_subtype :: "string option"
  t_task_status :: "string option"

record oldlab_row =
  ol_registrationNumber :: string
  ol_lab_type :: "string option"
  ol_lab_subtype :: "string option"
  ol_date_and_time :: "string option"
  ol_imaging_type :: "string option"
  ol_imaging_subtype :: "string option"

text \<open>\<open>consultations\<close> and \<open>oldconsultations\<close> have the same columns.\<close>

record consult_row =
  c_registrationNumber :: string
  c_consult :: "string option"
  c_date_and_time :: "string option"
  c_task_status :: "string option"

record db =
  patients :: "patient_row list"
  tasks :: "task_row list"
  oldlabs :: "oldlab_row list"
  consultations :: "consult_row list"
  oldconsultations :: "consult_row list"

definition emptyDb :: db where
  "emptyDb = \<lparr>patients = [], tasks = [], oldlabs = [], consultations = [], oldconsultations = []\<rparr>"

text \<open>The CHECK constraints. A CHECK on a NULL value passes.\<close>

definition gender_check :: "string \<Rightarrow> bool" where
  "gender_check g = (g \<in> {''Male'', ''Female'', ''Other''})"

definition location_check :: "string option \<Rightarrow> bool" where
  "location_check l =
     (case l of None \<Rightarrow> True
      | Some v \<Rightarrow> v \<in> {''Emergency'', ''ICU'', ''HDU'', ''Ward Male'', ''Ward Female'', ''Other''})"

definition lab_type_check :: "string option \<Rightarrow> bool" where
  "lab_type_check l =
     (case l of None \<Rightarrow> True | Some v \<Rightarrow> v \<in> {''blood'', ''urine'', ''miscellanous''})"

definition imaging_type_check :: "string option \<Rightarrow> bool" where
  "imaging_type_check l =
     (case l of None \<Rightarrow> True | Some v \<Rightarrow> v \<in> {''X-RAY'', ''CT'', ''MRI'', ''USG''})"

definition task_status_check :: "string option \<Rightarrow> bool" where
  "task_status_check l =
     (case l of None \<Rightarrow> True | Some v \<Rightarrow> v \<in> {''unsent'', ''sent'', ''collected''})"

section \<open>The connection\<close>

text \<open>
  The connection holds the tables as its statements see them, and, while a transaction
  is open, the tables as they were at BEGIN. A statement is atomic: it either returns
  the new tables or throws (\<open>None\<close>) and changes nothing. Every call on the connection
  takes a flag chosen by the environment: when it is set the call throws (a low-level
  store failure, or a missing handle in the screens that do not test for one).
\<close>

record conn =
  tables :: db
  saved :: "db option"

definition initialConn :: conn where
  "initialConn = \<lparr>tables = emptyDb, saved = None\<rparr>"

definition runAsync :: "bool \<Rightarrow> (db \<Rightarrow> db option) \<Rightarrow> conn \<Rightarrow> conn option" where
  "runAsync fault stmt c =
     (if fault then None
      else case stmt (tables c) of None \<Rightarrow> None | Some d \<Rightarrow> Some (c\<lparr>tables := d\<rparr>))"

definition getFirstAsync :: "bool \<Rightarrow> (db \<Rightarrow> 'a option) \<Rightarrow> conn \<Rightarrow> 'a option option" where
  "getFirstAsync fault query c = (if fault then None else Some (query (tables c)))"

definition getAllAsync :: "bool \<Rightarrow> (db \<Rightarrow> 'a list) \<Rightarrow> conn \<Rightarrow> 'a list option" where
  "getAllAsync fault query c = (if fault then None else Some (query (tables c)))"

text \<open>
  \<open>BEGIN TRANSACTION\<close> throws inside a transaction; \<open>COMMIT\<close> and \<open>ROLLBACK\<close> throw
  when none is open.
\<close>

definition runBegin :: "bool \<Rightarrow> conn \<Rightarrow> conn option" where
  "runBegin fault c =
     (if fault then None
      else case saved c of None \<Rightarrow> Some (c\<lparr>saved := Some (tables c)\<rparr>) | Some d \<Rightarrow> None)"

definition runCommit :: "bool \<Rightarrow> conn \<Rightarrow> conn option" where
  "runCommit fault c =
     (if fault then None
      else case saved c of None \<Rightarrow> None | Some d \<Rightarrow> Some (c\<lparr>saved := None\<rparr>))"

definition runRollback :: "bool \<Rightarrow> conn \<Rightarrow> conn option" where
  "runRollback fault c =
     (if fault then None
      else case saved c of None \<Rightarrow> None | Some d \<Rightarrow> Some \<lparr>tables = d, saved = None\<rparr>)"

text \<open>What a screen reports: the alert or error text, under the error kind it stands for.\<close>

datatype outcome =
    Success string
  | NotInitializedError string
  | ValidationError string
  | DuplicateKeyError string
  | StoreIOError string
  | Warning string
  | Silent

section \<open>AddPatient: handleSubmit (the second component of src/app/viewtasks.tsx)\<close>

text \<open>The state of the form: every field is the text of its input.\<close>

record add_patient_form =
  ap_registrationNumber :: string
  ap_patientName :: string
  ap_age :: string
  ap_gender :: string
  ap_location :: string
  ap_bedNumber :: string
  ap_chiefComplaints :: string
  ap_provisionalDiagnosis :: string
  ap_miscNotes :: string
  ap_number :: string

text \<open>
  \<open>INSERT INTO patients (patientName, age, gender, registrationNumber, location,
  bedNumber, chiefComplaints, provisionalDiagnosis, miscNotes, contact)\<close>;
  \<open>reg_date\<close> defaults to \<open>date('now')\<close> (the argument \<open>today\<close>) and \<open>is_discharged\<close>
  to 0. The statement throws on a CHECK or on the UNIQUE constraint.
\<close>

definition sql_insert_patient ::
  "string \<Rightarrow> string \<Rightarrow> int \<Rightarrow> string \<Rightarrow> string \<Rightarrow> string \<Rightarrow> int \<Rightarrow> string \<Rightarrow> string \<Rightarrow> string \<Rightarrow> string
     \<Rightarrow> db \<Rightarrow> db option" where
  "sql_insert_patient today pName pAge pGender pReg pLoc pBed pCC pPD pMisc pContact d =
     (if \<not> gender_check pGender \<or> \<not> location_check (Some pLoc)
         \<or> pReg \<in> set (map p_registrationNumber (patients d))
      then None
      else Some (d\<lparr>patients := patients d @
             [\<lparr>p_patientName = pName, p_age = Some pAge, p_gender = pGender,
               p_registrationNumber = pReg, p_location = Some pLoc, p_bedNumber = Some pBed,
               p_chiefComplaints = Some pCC, p_provisionalDiagnosis = Some pPD,
               p_miscNotes = Some pMisc, p_reg_date = Some today, p_contact = pContact,
               p_is_discharged = 0\<rparr>]\<rparr>))"

text \<open>\<open>SELECT id, registrationNumber FROM patients WHERE registrationNumber = ?\<close>\<close>

definition sql_find_patient :: "string \<Rightarrow> db \<Rightarrow> patient_row option" where
  "sql_find_patient reg d = find (\<lambda>r. p_registrationNumber r = reg) (patients d)"

text \<open>
  \<open>handleSubmit\<close> of AddPatient. \<open>dbDefined\<close> is the test \<open>db\<close> of the handle from the
  context; \<open>fSelect\<close> and \<open>fInsert\<close> make the two store calls throw.
\<close>

definition AddPatient_handleSubmit ::
  "bool \<Rightarrow> bool \<Rightarrow> bool \<Rightarrow> string \<Rightarrow> add_patient_form \<Rightarrow> conn \<Rightarrow> outcome \<times> conn" where
  "AddPatient_handleSubmit dbDefined fSelect fInsert today f c =
     (if \<not> dbDefined then (NotInitializedError ''Database is not initialized yet.'', c)
      else if trim (ap_registrationNumber f) = [] \<or> trim (ap_patientName f) = []
              \<or> trim (ap_age f) = [] \<or> trim (ap_bedNumber f) = []
              \<or> trim (ap_chiefComplaints f) = [] \<or> trim (ap_provisionalDiagnosis f) = []
              \<or> trim (ap_number f) = []
      then (ValidationError ''All fields are required!'', c)
      else
        let parsedAge = parseInt (ap_age f);
            parsedBedNumber = parseInt (ap_bedNumber f)
        in if notPositive parsedAge
           then (ValidationError ''Please enter a valid positive age.'', c)
           else if notPositive parsedBedNumber
           then (ValidationError ''Please enter a valid positive bed number.'', c)
           else
             (case getFirstAsync fSelect (sql_find_patient (trim (ap_registrationNumber f))) c of
                None \<Rightarrow> (StoreIOError ''Failed to add patient. Please try again.'', c)
              | Some (Some existingPatient) \<Rightarrow>
                  (DuplicateKeyError (''Patient with registration number '' @ [CHR 0x27]
                     @ ap_registrationNumber f @ [CHR 0x27] @ '' already exists.''), c)
              | Some None \<Rightarrow>
                  (case runAsync fInsert
                          (sql_insert_patient today (trim (ap_patientName f)) (the parsedAge)
                             (ap_gender f) (trim (ap_registrationNumber f)) (ap_location f)
                             (the parsedBedNumber) (trim (ap_chiefComplaints f))
                             (trim (ap_provisionalDiagnosis f)) (trim (ap_miscNotes f))
                             (trim (ap_number f))) c of
                     None \<Rightarrow> (StoreIOError ''Failed to add patient. Please try again.'', c)
                   | Some c' \<Rightarrow> (Success ''Patient added successfully!'', c'))))"

section \<open>EditPatient: checkRegistrationNumberExists and handleUpdate (src/app/editpatient.tsx)\<close>

text \<open>
  The \<open>Patient\<close> interface of the screen, as loaded from the row and edited in the form.
  \<open>ep_age\<close> is \<open>None\<close> for \<open>NaN\<close> or a NULL column; an optional field is \<open>None\<close> when
  undefined.
\<close>

record patient_form =
  ep_patientName :: string
  ep_age :: "int option"
  ep_gender :: string
  ep_registrationNumber :: string
  ep_location :: string
  ep_bedNumber :: "int option"
  ep_chiefComplaints :: "string option"
  ep_provisionalDiagnosis :: "string option"
  ep_miscNotes :: "string option"
  ep_reg_date :: string
  ep_contact :: string

text \<open>
  \<open>UPDATE patients SET patientName = ?, age = ?, gender = ?, registrationNumber = ?,
  location = ?, bedNumber = ?, chiefComplaints = ?, provisionalDiagnosis = ?,
  miscNotes = ?, contact = ? WHERE registrationNumber = ?\<close>.
  The constraints are evaluated on the rows the statement changes: with no row to change
  it succeeds; otherwise it throws on a CHECK of \<open>gender\<close> or \<open>location\<close> and when the
  updated table would hold a registration number twice (UNIQUE).
\<close>

definition update_patient_row :: "patient_form \<Rightarrow> patient_row \<Rightarrow> patient_row" where
  "update_patient_row p r =
     r\<lparr>p_patientName := ep_patientName p, p_age := ep_age p, p_gender := ep_gender p,
       p_registrationNumber := ep_registrationNumber p, p_location := Some (ep_location p),
       p_bedNumber := numOrNull (ep_bedNumber p),
       p_chiefComplaints := strOrNull (ep_chiefComplaints p),
       p_provisionalDiagnosis := strOrNull (ep_provisionalDiagnosis p),
       p_miscNotes := strOrNull (ep_miscNotes p), p_contact := ep_contact p\<rparr>"

definition sql_update_patient :: "patient_form \<Rightarrow> string \<Rightarrow> db \<Rightarrow> db option" where
  "sql_update_patient p orig d =
     (let rows' = map (\<lambda>r. if p_registrationNumber r = orig then update_patient_row p r else r)
                      (patients d)
      in if \<not> list_ex (\<lambda>r. p_registrationNumber r = orig) (patients d) then Some d
         else if \<not> gender_check (ep_gender p) \<or> \<not> location_check (Some (ep_location p))
         then None
         else if \<not> distinct (map p_registrationNumber rows') then None
         else Some (d\<lparr>patients := rows'\<rparr>))"

text \<open>\<open>UPDATE tasks SET registrationNumber = ? WHERE registrationNumber = ?\<close>, and the
  same statement on \<open>oldlabs\<close>.\<close>

definition sql_rename_tasks :: "string \<Rightarrow> string \<Rightarrow> db \<Rightarrow> db option" where
  "sql_rename_tasks new orig d =
     Some (d\<lparr>tasks := map (\<lambda>r. if t_registrationNumber r = orig
                                then r\<lparr>t_registrationNumber := new\<rparr> else r) (tasks d)\<rparr>)"

definition sql_rename_oldlabs :: "string \<Rightarrow> string \<Rightarrow> db \<Rightarrow> db option" where
  "sql_rename_oldlabs new orig d =
     Some (d\<lparr>oldlabs := map (\<lambda>r. if ol_registrationNumber r = orig
                                  then r\<lparr>ol_registrationNumber := new\<rparr> else r) (oldlabs d)\<rparr>)"

text \<open>
  \<open>checkRegistrationNumberExists\<close>:
  \<open>SELECT * FROM patients WHERE registrationNumber = ? AND registrationNumber != ?\<close>
  with \<open>[regNumber, originalRegistrationNumber]\<close>; the catch block returns \<open>true\<close>.
\<close>

definition checkRegistrationNumberExists :: "bool \<Rightarrow> string \<Rightarrow> string \<Rightarrow> conn \<Rightarrow> bool" where
  "checkRegistrationNumberExists fault originalRegistrationNumber regNumber c =
     (case getFirstAsync fault
             (\<lambda>d. find (\<lambda>r. p_registrationNumber r = regNumber
                          \<and> p_registrationNumber r \<noteq> originalRegistrationNumber) (patients d)) c of
        None \<Rightarrow> True
      | Some existingPatient \<Rightarrow> existingPatient \<noteq> None)"

text \<open>Which store calls of \<open>handleUpdate\<close> throw.\<close>

record update_faults =
  f_check :: bool
  f_begin :: bool
  f_patients :: bool
  f_tasks :: bool
  f_oldlabs :: bool
  f_commit :: bool
  f_rollback :: bool

text \<open>
  The \<open>try\<close> block of \<open>handleUpdate\<close> from \<open>BEGIN TRANSACTION\<close> to \<open>COMMIT\<close>:
  \<open>Inr\<close> is the connection after COMMIT, \<open>Inl\<close> the connection at the call that threw.
\<close>

definition update_transaction ::
  "update_faults \<Rightarrow> string \<Rightarrow> patient_form \<Rightarrow> bool \<Rightarrow> conn \<Rightarrow> conn + conn" where
  "update_transaction fl originalRegistrationNumber p regNumberChanged c =
     (case runBegin (f_begin fl) c of
        None \<Rightarrow> Inl c
      | Some c1 \<Rightarrow>
     (case runAsync (f_patients fl) (sql_update_patient p originalRegistrationNumber) c1 of
        None \<Rightarrow> Inl c1
      | Some c2 \<Rightarrow>
     (case (if regNumberChanged
            then (case runAsync (f_tasks fl)
                         (sql_rename_tasks (ep_registrationNumber p) originalRegistrationNumber) c2 of
                    None \<Rightarrow> Inl c2
                  | Some c3 \<Rightarrow>
                 (case runAsync (f_oldlabs fl)
                         (sql_rename_oldlabs (ep_registrationNumber p) originalRegistrationNumber) c3 of
                    None \<Rightarrow> Inl c3
                  | Some c4 \<Rightarrow> Inr c4))
            else Inr c2) of
        Inl cf \<Rightarrow> Inl cf
      | Inr c5 \<Rightarrow>
     (case runCommit (f_commit fl) c5 of
        None \<Rightarrow> Inl c5
      | Some c6 \<Rightarrow> Inr c6))))"

text \<open>
  \<open>handleUpdate\<close>. \<open>patient\<close> is the form state (\<open>None\<close> while nothing is loaded). The
  catch block runs \<open>ROLLBACK\<close> and swallows its error.
\<close>

definition handleUpdate ::
  "update_faults \<Rightarrow> string \<Rightarrow> patient_form option \<Rightarrow> conn \<Rightarrow> outcome \<times> conn" where
  "handleUpdate fl originalRegistrationNumber patient c =
     (case patient of
        None \<Rightarrow> (Silent, c)
      | Some p \<Rightarrow>
          if trim (ep_patientName p) = [] then (ValidationError ''Patient name is required.'', c)
          else if notPositive (ep_age p) then (ValidationError ''Please enter a valid age.'', c)
          else if trim (ep_registrationNumber p) = []
          then (ValidationError ''Registration number is required.'', c)
          else if trim (ep_location p) = [] then (ValidationError ''Location is required.'', c)
          else if trim (ep_contact p) = []
          then (ValidationError ''Contact information is required.'', c)
          else
            let regNumberChanged = (ep_registrationNumber p \<noteq> originalRegistrationNumber)
            in if regNumberChanged
                  \<and> checkRegistrationNumberExists (f_check fl) originalRegistrationNumber
                       (ep_registrationNumber p) c
               then (DuplicateKeyError ''Registration number already exists.'', c)
               else
                 (case update_transaction fl originalRegistrationNumber p regNumberChanged c of
                    Inr c' \<Rightarrow> (Success ''Patient details updated successfully.'', c')
                  | Inl cf \<Rightarrow>
                      (StoreIOError ''Failed to update patient details.'',
                       (case runRollback (f_rollback fl) cf of None \<Rightarrow> cf | Some c' \<Rightarrow> c'))))"

section \<open>ReviewPatients: discharge, ReviewOldPatients: reAdmit (src/app/reviewoldpatients.tsx)\<close>

text \<open>\<open>UPDATE patients SET is_discharged = v WHERE registrationNumber = ?\<close> with the
  constant 1 (\<open>discharge\<close>) or 0 (\<open>reAdmit\<close>).\<close>

definition sql_set_discharged :: "int \<Rightarrow> string \<Rightarrow> db \<Rightarrow> db option" where
  "sql_set_discharged v reg d =
     Some (d\<lparr>patients := map (\<lambda>r. if p_registrationNumber r = reg
                                   then r\<lparr>p_is_discharged := v\<rparr> else r) (patients d)\<rparr>)"

definition discharge :: "bool \<Rightarrow> string \<Rightarrow> conn \<Rightarrow> outcome \<times> conn" where
  "discharge fault registrationNumber c =
     (case runAsync fault (sql_set_discharged 1 registrationNumber) c of
        None \<Rightarrow> (StoreIOError ''Failed to discharge patient.'', c)
      | Some c' \<Rightarrow> (Success ''Patient discharged successfully.'', c'))"

definition reAdmit :: "bool \<Rightarrow> string \<Rightarrow> conn \<Rightarrow> outcome \<times> conn" where
  "reAdmit fault registrationNumber c =
     (case runAsync fault (sql_set_discharged 0 registrationNumber) c of
        None \<Rightarrow> (StoreIOError ''Failed to re-admit patient.'', c)
      | Some c' \<Rightarrow> (Success ''Patient re-admitted successfully.'', c'))"

section \<open>AddTasks: the six add handlers (src/unnamed/part_001)\<close>

text \<open>
  \<open>ready\<close> is the test \<open>db && isDbInitialized\<close>; the route parameter
  \<open>registrationNumber\<close> is a string, empty when it is missing. \<open>now\<close> is the value of
  \<open>datetime('now')\<close> when the row is created. A new row of \<open>tasks\<close>, \<open>consultations\<close>
  or \<open>oldconsultations\<close> takes the default \<open>task_status\<close> \<open>'unsent'\<close>.
\<close>

definition sql_insert_task_lab :: "string \<Rightarrow> string \<Rightarrow> string \<Rightarrow> string \<Rightarrow> db \<Rightarrow> db option" where
  "sql_insert_task_lab now reg ty sub d =
     (if \<not> lab_type_check (Some ty) then None
      else Some (d\<lparr>tasks := tasks d @
             [\<lparr>t_registrationNumber = reg, t_lab_type = Some ty, t_lab_subtype = Some sub,
               t_date_and_time = Some now, t_imaging_type = None, t_imaging_subtype = None,
               t_task_status = Some ''unsent''\<rparr>]\<rparr>))"

definition sql_insert_task_imaging :: "string \<Rightarrow> string \<Rightarrow> string \<Rightarrow> string \<Rightarrow> db \<Rightarrow> db option" where
  "sql_insert_task_imaging now reg ty sub d =
     (if \<not> imaging_type_check (Some ty) then None
      else Some (d\<lparr>tasks := tasks d @
             [\<lparr>t_registrationNumber = reg, t_lab_type = None, t_lab_subtype = None,
               t_date_and_time = Some now, t_imaging_type = Some ty, t_imaging_subtype = Some sub,
               t_task_status = Some ''unsent''\<rparr>]\<rparr>))"

definition sql_insert_oldlab_lab :: "string \<Rightarrow> string \<Rightarrow> string \<Rightarrow> string \<Rightarrow> db \<Rightarrow> db option" where
  "sql_insert_oldlab_lab now reg ty sub d =
     (if \<not> lab_type_check (Some ty) then None
      else Some (d\<lparr>oldlabs := oldlabs d @
             [\<lparr>ol_registrationNumber = reg, ol_lab_type = Some ty, ol_lab_subtype = Some sub,
               ol_date_and_time = Some now, ol_imaging_type = None,
               ol_imaging_subtype = None\<rparr>]\<rparr>))"

definition sql_insert_oldlab_imaging :: "string \<Rightarrow> string \<Rightarrow> string \<Rightarrow> string \<Rightarrow> db \<Rightarrow> db option" where
  "sql_insert_oldlab_imaging now reg ty sub d =
     (if \<not> imaging_type_check (Some ty) then None
      else Some (d\<lparr>oldlabs := oldlabs d @
             [\<lparr>ol_registrationNumber = reg, ol_lab_type = None, ol_lab_subtype = None,
               ol_date_and_time = Some now, ol_imaging_type = Some ty,
               ol_imaging_subtype = Some sub\<rparr>]\<rparr>))"

definition new_consult_row :: "string \<Rightarrow> string \<Rightarrow> string \<Rightarrow> consult_row" where
  "new_consult_row now reg txt =
     \<lparr>c_registrationNumber = reg, c_consult = Some txt, c_date_and_time = Some now,
      c_task_status = Some ''unsent''\<rparr>"

definition sql_insert_consultation :: "string \<Rightarrow> string \<Rightarrow> string \<Rightarrow> db \<Rightarrow> db option" where
  "sql_insert_consultation now reg txt d =
     Some (d\<lparr>consultations := consultations d @ [new_consult_row now reg txt]\<rparr>)"

definition sql_insert_oldconsultation :: "string \<Rightarrow> string \<Rightarrow> string \<Rightarrow> db \<Rightarrow> db option" where
  "sql_insert_oldconsultation now reg txt d =
     Some (d\<lparr>oldconsultations := oldconsultations d @ [new_consult_row now reg txt]\<rparr>)"

text \<open>\<open>SELECT id FROM <table> WHERE registrationNumber = ? AND consult = ?\<close>\<close>

definition consult_matches :: "string \<Rightarrow> string \<Rightarrow> consult_row \<Rightarrow> bool" where
  "consult_matches reg txt r = (c_registrationNumber r = reg \<and> c_consult r = Some txt)"

definition sql_find_consultation :: "string \<Rightarrow> string \<Rightarrow> db \<Rightarrow> consult_row option" where
  "sql_find_consultation reg txt d = find (consult_matches reg txt) (consultations d)"

definition sql_find_oldconsultation :: "string \<Rightarrow> string \<Rightarrow> db \<Rightarrow> consult_row option" where
  "sql_find_oldconsultation reg txt d = find (consult_matches reg txt) (oldconsultations d)"

definition handleAddLab ::
  "bool \<Rightarrow> bool \<Rightarrow> string \<Rightarrow> string \<Rightarrow> string \<Rightarrow> string \<Rightarrow> conn \<Rightarrow> outcome \<times> conn" where
  "handleAddLab ready fault now registrationNumber labType labSubtype c =
     (if \<not> ready then (NotInitializedError ''Database is not initialized yet.'', c)
      else if registrationNumber = [] then (ValidationError ''No registration number found.'', c)
      else if trim labSubtype = [] then (ValidationError ''Lab subtype cannot be empty.'', c)
      else (case runAsync fault
                   (sql_insert_task_lab now registrationNumber labType (trim labSubtype)) c of
              None \<Rightarrow> (StoreIOError ''Failed to add lab task.'', c)
            | Some c' \<Rightarrow> (Success ''Lab task added successfully!'', c')))"

definition handleAddOldLab ::
  "bool \<Rightarrow> bool \<Rightarrow> string \<Rightarrow> string \<Rightarrow> string \<Rightarrow> string \<Rightarrow> conn \<Rightarrow> outcome \<times> conn" where
  "handleAddOldLab ready fault now registrationNumber labType labSubtype c =
     (if \<not> ready then (NotInitializedError ''Database is not initialized yet.'', c)
      else if registrationNumber = [] then (ValidationError ''No registration number found.'', c)
      else if trim labSubtype = [] then (ValidationError ''Lab subtype cannot be empty.'', c)
      else (case runAsync fault
                   (sql_insert_oldlab_lab now registrationNumber labType (trim labSubtype)) c of
              None \<Rightarrow> (StoreIOError ''Failed to add old lab task.'', c)
            | Some c' \<Rightarrow> (Success ''Old lab task added successfully!'', c')))"

definition handleAddImaging ::
  "bool \<Rightarrow> bool \<Rightarrow> string \<Rightarrow> string \<Rightarrow> string \<Rightarrow> string \<Rightarrow> conn \<Rightarrow> outcome \<times> conn" where
  "handleAddImaging ready fault now registrationNumber imagingType imagingSubtype c =
     (if \<not> ready then (NotInitializedError ''Database is not initialized yet.'', c)
      else if registrationNumber = [] then (ValidationError ''No registration number found.'', c)
      else if trim imagingSubtype = []
      then (ValidationError ''Imaging subtype cannot be empty.'', c)
      else (case runAsync fault
                   (sql_insert_task_imaging now registrationNumber imagingType
                      (trim imagingSubtype)) c of
              None \<Rightarrow> (StoreIOError ''Failed to add imaging task.'', c)
            | Some c' \<Rightarrow> (Success ''Imaging task added successfully!'', c')))"

definition handleAddOldImaging ::
  "bool \<Rightarrow> bool \<Rightarrow> string \<Rightarrow> string \<Rightarrow> string \<Rightarrow> string \<Rightarrow> conn \<Rightarrow> outcome \<times> conn" where
  "handleAddOldImaging ready fault now registrationNumber imagingType imagingSubtype c =
     (if \<not> ready then (NotInitializedError ''Database is not initialized yet.'', c)
      else if registrationNumber = [] then (ValidationError ''No registration number found.'', c)
      else if trim imagingSubtype = []
      then (ValidationError ''Imaging subtype cannot be empty.'', c)
      else (case runAsync fault
                   (sql_insert_oldlab_imaging now registrationNumber imagingType
                      (trim imagingSubtype)) c of
              None \<Rightarrow> (StoreIOError ''Failed to add old imaging task.'', c)
            | Some c' \<Rightarrow> (Success ''Old imaging task added successfully!'', c')))"

text \<open>\<open>handleAddConsultation\<close> reads \<open>existing\<close> and does not use it.\<close>

definition handleAddConsultation ::
  "bool \<Rightarrow> bool \<Rightarrow> bool \<Rightarrow> string \<Rightarrow> string \<Rightarrow> string \<Rightarrow> conn \<Rightarrow> outcome \<times> conn" where
  "handleAddConsultation ready fSelect fInsert now registrationNumber consultationText c =
     (if \<not> ready then (NotInitializedError ''Database is not initialized yet.'', c)
      else if registrationNumber = [] then (ValidationError ''No registration number found.'', c)
      else if trim consultationText = []
      then (ValidationError ''Consultation text cannot be empty.'', c)
      else (case getFirstAsync fSelect
                   (sql_find_consultation (trim registrationNumber) (trim consultationText)) c of
              None \<Rightarrow> (StoreIOError ''Failed to add consultation.'', c)
            | Some existing \<Rightarrow>
                (case runAsync fInsert
                        (sql_insert_consultation now (trim registrationNumber)
                           (trim consultationText)) c of
                   None \<Rightarrow> (StoreIOError ''Failed to add consultation.'', c)
                 | Some c' \<Rightarrow> (Success ''Consultation added successfully!'', c'))))"

definition handleAddOldConsultation ::
  "bool \<Rightarrow> bool \<Rightarrow> bool \<Rightarrow> string \<Rightarrow> string \<Rightarrow> string \<Rightarrow> conn \<Rightarrow> outcome \<times> conn" where
  "handleAddOldConsultation ready fSelect fInsert now registrationNumber consultationText c =
     (if \<not> ready then (NotInitializedError ''Database is not initialized yet.'', c)
      else if registrationNumber = [] then (ValidationError ''No registration number found.'', c)
      else if trim consultationText = []
      then (ValidationError ''Consultation text cannot be empty.'', c)
      else (case getFirstAsync fSelect
                   (sql_find_oldconsultation (trim registrationNumber) (trim consultationText)) c of
              None \<Rightarrow> (StoreIOError ''Failed to add old consultation.'', c)
            | Some (Some existing) \<Rightarrow> (Warning ''This old consultation already exists.'', c)
            | Some None \<Rightarrow>
                (case runAsync fInsert
                        (sql_insert_oldconsultation now (trim registrationNumber)
                           (trim consultationText)) c of
                   None \<Rightarrow> (StoreIOError ''Failed to add old consultation.'', c)
                 | Some c' \<Rightarrow> (Success ''Old consultation added successfully!'', c'))))"

section \<open>ViewTasks: fetchTasks and deleteItem (src/app/viewtasks.tsx)\<close>

text \<open>
  A bound parameter may be NULL (a field the item does not have); \<open>column = ?\<close> holds
  when both sides are non-NULL and equal.
\<close>

definition sql_eq :: "'a option \<Rightarrow> 'a option \<Rightarrow> bool" where
  "sql_eq col param = (col \<noteq> None \<and> col = param)"

text \<open>
  The items of the lists (\<open>TaskItem\<close>, \<open>OldTaskItem\<close>, \<open>ConsultationItem\<close>,
  \<open>OldConsultationItem\<close>): an item has the fields its query selects, the others are
  undefined (\<open>None\<close>).
\<close>

record view_item =
  vi_type :: "string option"
  vi_subtype :: "string option"
  vi_consult :: "string option"
  vi_task_status :: "string option"
  vi_dateTime :: "string option"





text \<open>
  \<open>DELETE FROM tasks WHERE registrationNumber = ? AND date_and_time = ? AND
  ((lab_type = ? AND lab_subtype = ?) OR (imaging_type = ? AND imaging_subtype = ?))\<close>
  with \<open>[registrationNumber, dateTime, type, subtype, type, subtype]\<close>, and the same
  statement on \<open>oldlabs\<close>.
\<close>

definition task_delete_matches :: "string \<Rightarrow> view_item \<Rightarrow> task_row \<Rightarrow> bool" where
  "task_delete_matches reg item r =
     (t_registrationNumber r = reg \<and> sql_eq (t_date_and_time r) (vi_dateTime item)
      \<and> ((sql_eq (t_lab_type r) (vi_type item) \<and> sql_eq (t_lab_subtype r) (vi_subtype item))
         \<or> (sql_eq (t_imaging_type r) (vi_type item)
            \<and> sql_eq (t_imaging_subtype r) (vi_subtype item))))"

definition oldlab_delete_matches :: "string \<Rightarrow> view_item \<Rightarrow> oldlab_row \<Rightarrow> bool" where
  "oldlab_delete_matches reg item r =
     (ol_registrationNumber r = reg \<and> sql_eq (ol_date_and_time r) (vi_dateTime item)
      \<and> ((sql_eq (ol_lab_type r) (vi_type item) \<and> sql_eq (ol_lab_subtype r) (vi_subtype item))
         \<or> (sql_eq (ol_imaging_type r) (vi_type item)
            \<and> sql_eq (ol_imaging_subtype r) (vi_subtype item))))"

text \<open>\<open>DELETE FROM consultations WHERE registrationNumber = ? AND consult = ? AND
  date_and_time = ?\<close>, and the same statement on \<open>oldconsultations\<close>.\<close>

definition consult_delete_matches :: "string \<Rightarrow> view_item \<Rightarrow> consult_row \<Rightarrow> bool" where
  "consult_delete_matches reg item r =
     (c_registrationNumber r = reg \<and> sql_eq (c_consult r) (vi_consult item)
      \<and> sql_eq (c_date_and_time r) (vi_dateTime item))"

definition sql_delete_task_item :: "string \<Rightarrow> view_item \<Rightarrow> db \<Rightarrow> db option" where
  "sql_delete_task_item reg item d =
     Some (d\<lparr>tasks := filter (\<lambda>r. \<not> task_delete_matches reg item r) (tasks d)\<rparr>)"

definition sql_delete_oldlab_item :: "string \<Rightarrow> view_item \<Rightarrow> db \<Rightarrow> db option" where
  "sql_delete_oldlab_item reg item d =
     Some (d\<lparr>oldlabs := filter (\<lambda>r. \<not> oldlab_delete_matches reg item r) (oldlabs d)\<rparr>)"

definition sql_delete_consultation_item :: "string \<Rightarrow> view_item \<Rightarrow> db \<Rightarrow> db option" where
  "sql_delete_consultation_item reg item d =
     Some (d\<lparr>consultations := filter (\<lambda>r. \<not> consult_delete_matches reg item r) (consultations d)\<rparr>)"

definition sql_delete_oldconsultation_item :: "string \<Rightarrow> view_item \<Rightarrow> db \<Rightarrow> db option" where
  "sql_delete_oldconsultation_item reg item d =
     Some (d\<lparr>oldconsultations :=
             filter (\<lambda>r. \<not> consult_delete_matches reg item r) (oldconsultations d)\<rparr>)"

text \<open>\<open>deleteItem\<close>: the \<open>switch\<close> on the table name; the default case throws
  \<open>Invalid table name.\<close> into the catch block.\<close>

definition deleteItem :: "bool \<Rightarrow> string \<Rightarrow> string \<Rightarrow> view_item \<Rightarrow> conn \<Rightarrow> outcome \<times> conn" where
  "deleteItem fault registrationNumber table item c =
     (case (if table = ''tasks''
            then runAsync fault (sql_delete_task_item registrationNumber item) c
            else if table = ''oldlabs''
            then runAsync fault (sql_delete_oldlab_item registrationNumber item) c
            else if table = ''consultations''
            then runAsync fault (sql_delete_consultation_item registrationNumber item) c
            else if table = ''oldconsultations''
            then runAsync fault (sql_delete_oldconsultation_item registrationNumber item) c
            else None) of
        None \<Rightarrow> (StoreIOError ''Failed to delete the item.'', c)
      | Some c' \<Rightarrow> (Success ''Item deleted successfully.'', c'))"

section \<open>PendingTasks: markTaskAsSent and deleteTask (src/app/pendingtasks.tsx)\<close>

text \<open>
  The \<open>identifier\<close> object (\<open>Record<string, any>\<close>): a field it does not have is
  bound as NULL.
\<close>

record task_identifier =
  id_registrationNumber :: "string option"
  id_dateTime :: "string option"
  id_lab_type :: "string option"
  id_lab_subtype :: "string option"
  id_imaging_type :: "string option"
  id_imaging_subtype :: "string option"
  id_consult :: "string option"

definition pending_lab_matches :: "task_identifier \<Rightarrow> task_row \<Rightarrow> bool" where
  "pending_lab_matches i r =
     (sql_eq (Some (t_registrationNumber r)) (id_registrationNumber i)
      \<and> sql_eq (t_date_and_time r) (id_dateTime i)
      \<and> sql_eq (t_lab_type r) (id_lab_type i)
      \<and> sql_eq (t_lab_subtype r) (id_lab_subtype i))"

definition pending_imaging_matches :: "task_identifier \<Rightarrow> task_row \<Rightarrow> bool" where
  "pending_imaging_matches i r =
     (sql_eq (Some (t_registrationNumber r)) (id_registrationNumber i)
      \<and> sql_eq (t_date_and_time r) (id_dateTime i)
      \<and> sql_eq (t_imaging_type r) (id_imaging_type i)
      \<and> sql_eq (t_imaging_subtype r) (id_imaging_subtype i))"

definition pending_consult_matches :: "task_identifier \<Rightarrow> consult_row \<Rightarrow> bool" where
  "pending_consult_matches i r =
     (sql_eq (Some (c_registrationNumber r)) (id_registrationNumber i)
      \<and> sql_eq (c_date_and_time r) (id_dateTime i)
      \<and> sql_eq (c_consult r) (id_consult i))"

text \<open>\<open>UPDATE <table> SET task_status = 'sent' WHERE\<close> the natural key of the task type.\<close>

definition sql_mark_sent_lab :: "task_identifier \<Rightarrow> db \<Rightarrow> db option" where
  "sql_mark_sent_lab i d =
     Some (d\<lparr>tasks := map (\<lambda>r. if pending_lab_matches i r
                                then r\<lparr>t_task_status := Some ''sent''\<rparr> else r) (tasks d)\<rparr>)"

definition sql_mark_sent_imaging :: "task_identifier \<Rightarrow> db \<Rightarrow> db option" where
  "sql_mark_sent_imaging i d =
     Some (d\<lparr>tasks := map (\<lambda>r. if pending_imaging_matches i r
                                then r\<lparr>t_task_status := Some ''sent''\<rparr> else r) (tasks d)\<rparr>)"

definition sql_mark_sent_consultation :: "task_identifier \<Rightarrow> db \<Rightarrow> db option" where
  "sql_mark_sent_consultation i d =
     Some (d\<lparr>consultations := map (\<lambda>r. if pending_consult_matches i r
                                        then r\<lparr>c_task_status := Some ''sent''\<rparr> else r)
                                (consultations d)\<rparr>)"

definition sql_mark_sent_oldconsultation :: "task_identifier \<Rightarrow> db \<Rightarrow> db option" where
  "sql_mark_sent_oldconsultation i d =
     Some (d\<lparr>oldconsultations := map (\<lambda>r. if pending_consult_matches i r
                                           then r\<lparr>c_task_status := Some ''sent''\<rparr> else r)
                                   (oldconsultations d)\<rparr>)"

text \<open>\<open>markTaskAsSent\<close>: the \<open>switch\<close> on the task type; the default case throws
  \<open>Invalid task type\<close> into the catch block.\<close>

definition markTaskAsSent :: "bool \<Rightarrow> string \<Rightarrow> task_identifier \<Rightarrow> conn \<Rightarrow> outcome \<times> conn" where
  "markTaskAsSent fault taskType i c =
     (case (if taskType = ''Lab'' then runAsync fault (sql_mark_sent_lab i) c
            else if taskType = ''Imaging'' then runAsync fault (sql_mark_sent_imaging i) c
            else if taskType = ''Consultation''
            then runAsync fault (sql_mark_sent_consultation i) c
            else if taskType = ''OldConsultation''
            then runAsync fault (sql_mark_sent_oldconsultation i) c
            else None) of
        None \<Rightarrow> (StoreIOError (''Failed to mark '' @ taskType @ '' as sent.''), c)
      | Some c' \<Rightarrow> (Success ''Task marked as sent.'', c'))"

text \<open>The confirmed branch of \<open>deleteTask\<close>: \<open>DELETE FROM <table> WHERE\<close> the natural
  key of the task type.\<close>

definition sql_delete_pending_lab :: "task_identifier \<Rightarrow> db \<Rightarrow> db option" where
  "sql_delete_pending_lab i d =
     Some (d\<lparr>tasks := filter (\<lambda>r. \<not> pending_lab_matches i r) (tasks d)\<rparr>)"

definition sql_delete_pending_imaging :: "task_identifier \<Rightarrow> db \<Rightarrow> db option" where
  "sql_delete_pending_imaging i d =
     Some (d\<lparr>tasks := filter (\<lambda>r. \<not> pending_imaging_matches i r) (tasks d)\<rparr>)"

definition sql_delete_pending_consultation :: "task_identifier \<Rightarrow> db \<Rightarrow> db option" where
  "sql_delete_pending_consultation i d =
     Some (d\<lparr>consultations := filter (\<lambda>r. \<not> pending_consult_matches i r) (consultations d)\<rparr>)"

definition sql_delete_pending_oldconsultation :: "task_identifier \<Rightarrow> db \<Rightarrow> db option" where
  "sql_delete_pending_oldconsultation i d =
     Some (d\<lparr>oldconsultations :=
             filter (\<lambda>r. \<not> pending_consult_matches i r) (oldconsultations d)\<rparr>)"

definition deleteTask :: "bool \<Rightarrow> string \<Rightarrow> task_identifier \<Rightarrow> conn \<Rightarrow> outcome \<times> conn" where
  "deleteTask fault taskType i c =
     (case (if taskType = ''Lab'' then runAsync fault (sql_delete_pending_lab i) c
            else if taskType = ''Imaging'' then runAsync fault (sql_delete_pending_imaging i) c
            else if taskType = ''Consultation''
            then runAsync fault (sql_delete_pending_consultation i) c
            else if taskType = ''OldConsultation''
            then runAsync fault (sql_delete_pending_oldconsultation i) c
            else None) of
        None \<Rightarrow> (StoreIOError (''Failed to delete '' @ taskType @ ''.''), c)
      | Some c' \<Rightarrow> (Success ''Task deleted successfully.'', c'))"

section \<open>EditTask: determineCategory and handleSubmit (src/app/edittask.tsx)\<close>

datatype TaskCategory = currentLab | currentImaging | oldLab | oldImaging

definition determineCategory :: "string \<Rightarrow> string \<Rightarrow> TaskCategory option" where
  "determineCategory table itemType =
     (if table = ''tasks''
      then (if toLowerCase itemType \<in> set [''blood'', ''urine'', ''miscellanous'']
            then Some currentLab
            else if toLowerCase itemType \<in> set [''x-ray'', ''ct'', ''mri'', ''usg'']
            then Some currentImaging
            else None)
      else if table = ''oldlabs''
      then (if toLowerCase itemType \<in> set [''blood'', ''urine'', ''miscellanous'']
            then Some oldLab
            else if toLowerCase itemType \<in> set [''x-ray'', ''ct'', ''mri'', ''usg'']
            then Some oldImaging
            else None)
      else None)"

text \<open>\<open>category.includes("Lab")\<close>\<close>

definition includesLab :: "TaskCategory \<Rightarrow> bool" where
  "includesLab cat = (cat = currentLab \<or> cat = oldLab)"

text \<open>
  \<open>UPDATE tasks SET <lab_subtype | imaging_subtype> = ?, task_status = ? WHERE
  registrationNumber = ? AND date_and_time = ? AND <lab_type | imaging_type> = ?\<close>;
  the CHECK of \<open>task_status\<close> is evaluated on the rows the statement changes.
\<close>

definition task_edit_matches :: "bool \<Rightarrow> string \<Rightarrow> string \<Rightarrow> string \<Rightarrow> task_row \<Rightarrow> bool" where
  "task_edit_matches isLab reg dateTime itemType r =
     (t_registrationNumber r = reg \<and> t_date_and_time r = Some dateTime
      \<and> (if isLab then t_lab_type r else t_imaging_type r) = Some itemType)"

definition sql_edit_task ::
  "bool \<Rightarrow> string \<Rightarrow> string \<Rightarrow> string \<Rightarrow> string \<Rightarrow> string \<Rightarrow> db \<Rightarrow> db option" where
  "sql_edit_task isLab sub status reg dateTime itemType d =
     (if list_ex (task_edit_matches isLab reg dateTime itemType) (tasks d)
         \<and> \<not> task_status_check (Some status)
      then None
      else Some (d\<lparr>tasks :=
             map (\<lambda>r. if task_edit_matches isLab reg dateTime itemType r
                      then (if isLab then r\<lparr>t_lab_subtype := Some sub, t_task_status := Some status\<rparr>
                            else r\<lparr>t_imaging_subtype := Some sub, t_task_status := Some status\<rparr>)
                      else r)
               (tasks d)\<rparr>))"

text \<open>\<open>UPDATE oldlabs SET <lab_subtype | imaging_subtype> = ? WHERE registrationNumber = ?
  AND date_and_time = ? AND <lab_type | imaging_type> = ?\<close>\<close>

definition oldlab_edit_matches :: "bool \<Rightarrow> string \<Rightarrow> string \<Rightarrow> string \<Rightarrow> oldlab_row \<Rightarrow> bool" where
  "oldlab_edit_matches isLab reg dateTime itemType r =
     (ol_registrationNumber r = reg \<and> ol_date_and_time r = Some dateTime
      \<and> (if isLab then ol_lab_type r else ol_imaging_type r) = Some itemType)"

definition sql_edit_oldlab ::
  "bool \<Rightarrow> string \<Rightarrow> string \<Rightarrow> string \<Rightarrow> string \<Rightarrow> db \<Rightarrow> db option" where
  "sql_edit_oldlab isLab sub reg dateTime itemType d =
     Some (d\<lparr>oldlabs :=
        map (\<lambda>r. if oldlab_edit_matches isLab reg dateTime itemType r
                 then (if isLab then r\<lparr>ol_lab_subtype := Some sub\<rparr>
                       else r\<lparr>ol_imaging_subtype := Some sub\<rparr>)
                 else r)
          (oldlabs d)\<rparr>)"

text \<open>
  \<open>handleSubmit\<close> of EditTask. \<open>category\<close> is the state set by the effect
  (\<open>determineCategory\<close>, or null before it ran); \<open>subtype\<close> and \<open>status\<close> are the form
  state; the other arguments are the route parameters.
\<close>

definition EditTask_handleSubmit ::
  "bool \<Rightarrow> TaskCategory option \<Rightarrow> string \<Rightarrow> string \<Rightarrow> string \<Rightarrow> string \<Rightarrow> string \<Rightarrow> conn
     \<Rightarrow> outcome \<times> conn" where
  "EditTask_handleSubmit fault category registrationNumber date_and_time itemType subtype status c =
     (case category of
        None \<Rightarrow> (ValidationError ''Invalid task category.'', c)
      | Some cat \<Rightarrow>
          if trim subtype = [] then (ValidationError ''Subtype cannot be empty.'', c)
          else
            (case (if cat = currentLab \<or> cat = currentImaging
                   then runAsync fault
                          (sql_edit_task (includesLab cat) (trim subtype) status
                             registrationNumber date_and_time itemType) c
                   else runAsync fault
                          (sql_edit_oldlab (includesLab cat) (trim subtype)
                             registrationNumber date_and_time itemType) c) of
               None \<Rightarrow> (StoreIOError ''Failed to update the task.'', c)
             | Some c' \<Rightarrow> (Success ''Task updated successfully.'', c')))"

section \<open>The states the application can reach\<close>

text \<open>
  One action per handler that writes to the store, with the inputs of the handler
  (form state, route parameters, clock, failing calls). The screens \<open>collectedtasks\<close>
  and \<open>completedtasks\<close> named in the layout are not among the sources.
\<close>

datatype action =
    ActAddPatient bool bool bool string add_patient_form
  | ActUpdatePatient update_faults string "patient_form option"
  | ActDischarge bool string
  | ActReAdmit bool string
  | ActAddLab bool bool string string string string
  | ActAddOldLab bool bool string string string string
  | ActAddImaging bool bool string string string string
  | ActAddOldImaging bool bool string string string string
  | ActAddConsultation bool bool bool string string string
  | ActAddOldConsultation bool bool bool string string string
  | ActDeleteItem bool string string view_item
  | ActMarkTaskAsSent bool string task_identifier
  | ActDeleteTask bool string task_identifier
  | ActEditTask bool "TaskCategory option" string string string string string

fun perform :: "action \<Rightarrow> conn \<Rightarrow> outcome \<times> conn" where
  "perform (ActAddPatient dbDefined fs fi today f) c = AddPatient_handleSubmit dbDefined fs fi today f c"
| "perform (ActUpdatePatient fl orig p) c = handleUpdate fl orig p c"
| "perform (ActDischarge fault reg) c = discharge fault reg c"
| "perform (ActReAdmit fault reg) c = reAdmit fault reg c"
| "perform (ActAddLab ready fault now reg ty sub) c = handleAddLab ready fault now reg ty sub c"
| "perform (ActAddOldLab ready fault now reg ty sub) c = handleAddOldLab ready fault now reg ty sub c"
| "perform (ActAddImaging ready fault now reg ty sub) c = handleAddImaging ready fault now reg ty sub c"
| "perform (ActAddOldImaging ready fault now reg ty sub) c =
     handleAddOldImaging ready fault now reg ty sub c"
| "perform (ActAddConsultation ready fs fi now reg txt) c =
     handleAddConsultation ready fs fi now reg txt c"
| "perform (ActAddOldConsultation ready fs fi now reg txt) c =
     handleAddOldConsultation ready fs fi now reg txt c"
| "perform (ActDeleteItem fault reg table item) c = deleteItem fault reg table item c"
| "perform (ActMarkTaskAsSent fault taskType i) c = markTaskAsSent fault taskType i c"
| "perform (ActDeleteTask fault taskType i) c = deleteTask fault taskType i c"
| "perform (ActEditTask fault category reg dateTime itemType sub status) c =
     EditTask_handleSubmit fault category reg dateTime itemType sub status c"

inductive reachable :: "conn \<Rightarrow> bool" where
  reachable_init: "reachable initialConn"
| reachable_step: "reachable c \<Longrightarrow> reachable (snd (perform a c))"

text \<open>The statements the handlers send to the store.\<close>

inductive app_stmt :: "(db \<Rightarrow> db option) \<Rightarrow> bool" where
  "app_stmt (sql_insert_patient today pName pAge pGender pReg pLoc pBed pCC pPD pMisc pContact)"
| "app_stmt (sql_update_patient p orig)"
| "app_stmt (sql_rename_tasks new orig)"
| "app_stmt (sql_rename_oldlabs new orig)"
| "app_stmt (sql_set_discharged v reg)"
| "app_stmt (sql_insert_task_lab now reg ty sub)"
| "app_stmt (sql_insert_task_imaging now reg ty sub)"
| "app_stmt (sql_insert_oldlab_lab now reg ty sub)"
| "app_stmt (sql_insert_oldlab_imaging now reg ty sub)"
| "app_stmt (sql_insert_consultation now reg txt)"
| "app_stmt (sql_insert_oldconsultation now reg txt)"
| "app_stmt (sql_delete_task_item reg item)"
| "app_stmt (sql_delete_oldlab_item reg item)"
| "app_stmt (sql_delete_consultation_item reg item)"
| "app_stmt (sql_delete_oldconsultation_item reg item)"
| "app_stmt (sql_mark_sent_lab i)"
| "app_stmt (sql_mark_sent_imaging i)"
| "app_stmt (sql_mark_sent_consultation i)"
| "app_stmt (sql_mark_sent_oldconsultation i)"
| "app_stmt (sql_delete_pending_lab i)"
| "app_stmt (sql_delete_pending_imaging i)"
| "app_stmt (sql_delete_pending_consultation i)"
| "app_stmt (sql_delete_pending_oldconsultation i)"
| "app_stmt (sql_edit_task isLab sub status reg dateTime itemType)"
| "app_stmt (sql_edit_oldlab isLab sub reg dateTime itemType)"

section \<open>Predicates of the properties\<close>

text \<open>The five tests at the head of \<open>handleUpdate\<close> all pass.\<close>

definition update_form_valid :: "patient_form \<Rightarrow> bool" where
  "update_form_valid p =
     (trim (ep_patientName p) \<noteq> [] \<and> \<not> notPositive (ep_age p)
      \<and> trim (ep_registrationNumber p) \<noteq> [] \<and> trim (ep_location p) \<noteq> []
      \<and> trim (ep_contact p) \<noteq> [])"

text \<open>The tests at the head of \<open>handleSubmit\<close> of AddPatient all pass.\<close>

definition add_form_valid :: "add_patient_form \<Rightarrow> bool" where
  "add_form_valid f =
     (trim (ap_registrationNumber f) \<noteq> [] \<and> trim (ap_patientName f) \<noteq> []
      \<and> trim (ap_age f) \<noteq> [] \<and> trim (ap_bedNumber f) \<noteq> []
      \<and> trim (ap_chiefComplaints f) \<noteq> [] \<and> trim (ap_provisionalDiagnosis f) \<noteq> []
      \<and> trim (ap_number f) \<noteq> []
      \<and> \<not> notPositive (parseInt (ap_age f)) \<and> \<not> notPositive (parseInt (ap_bedNumber f)))"

text \<open>
  A property of the tables holds of a connection when it holds of the tables the
  statements see and of the tables a ROLLBACK would bring back.
\<close>

definition conn_inv :: "(db \<Rightarrow> bool) \<Rightarrow> conn \<Rightarrow> bool" where
  "conn_inv P c = (P (tables c) \<and> (case saved c of None \<Rightarrow> True | Some d \<Rightarrow> P d))"

definition stmt_preserves :: "(db \<Rightarrow> bool) \<Rightarrow> (db \<Rightarrow> db option) \<Rightarrow> bool" where
  "stmt_preserves P stmt = (\<forall>d d'. P d \<longrightarrow> stmt d = Some d' \<longrightarrow> P d')"

text \<open>The handler left the connection as it was or ran one statement on it.\<close>

definition one_statement :: "conn \<Rightarrow> conn \<Rightarrow> bool" where
  "one_statement c c' = (c' = c \<or> (\<exists>f stmt. app_stmt stmt \<and> runAsync f stmt c = Some c'))"

text \<open>No two rows of \<open>patients\<close> share a registration number.\<close>

definition unique_keys :: "db \<Rightarrow> bool" where
  "unique_keys d = distinct (map p_registrationNumber (patients d))"

text \<open>
  Exactly one payload: the lab columns both set and the imaging columns both NULL, or
  the imaging columns both set and the lab columns both NULL.
\<close>

definition task_payload_ok :: "task_row \<Rightarrow> bool" where
  "task_payload_ok r =
     ((t_lab_type r \<noteq> None \<and> t_lab_subtype r \<noteq> None
         \<and> t_imaging_type r = None \<and> t_imaging_subtype r = None)
      \<or> (t_imaging_type r \<noteq> None \<and> t_imaging_subtype r \<noteq> None
         \<and> t_lab_type r = None \<and> t_lab_subtype r = None))"

definition oldlab_payload_ok :: "oldlab_row \<Rightarrow> bool" where
  "oldlab_payload_ok r =
     ((ol_lab_type r \<noteq> None \<and> ol_lab_subtype r \<noteq> None
         \<and> ol_imaging_type r = None \<and> ol_imaging_subtype r = None)
      \<or> (ol_imaging_type r \<noteq> None \<and> ol_imaging_subtype r \<noteq> None
         \<and> ol_lab_type r = None \<and> ol_lab_subtype r = None))"

definition payload_exclusive :: "db \<Rightarrow> bool" where
  "payload_exclusive d =
     (list_all task_payload_ok (tasks d) \<and> list_all oldlab_payload_ok (oldlabs d))"

section \<open>Example data\<close>

definition exPatient :: "string \<Rightarrow> int \<Rightarrow> patient_row" where
  "exPatient reg dis =
     \<lparr>p_patientName = ''Jane Doe'', p_age = Some 41, p_gender = ''Female'',
      p_registrationNumber = reg, p_location = Some ''ICU'', p_bedNumber = Some 7,
      p_chiefComplaints = Some ''fever'', p_provisionalDiagnosis = Some ''sepsis'',
      p_miscNotes = None, p_reg_date = Some ''2024-05-01'', p_contact = ''5550100'',
      p_is_discharged = dis\<rparr>"

definition exLabTask :: "string \<Rightarrow> task_row" where
  "exLabTask reg =
     \<lparr>t_registrationNumber = reg, t_lab_type = Some ''blood'', t_lab_subtype = Some ''CBC'',
      t_date_and_time = Some ''2024-05-01 10:00:00'', t_imaging_type = None,
      t_imaging_subtype = None, t_task_status = Some ''unsent''\<rparr>"

definition exImagingTask :: "string \<Rightarrow> task_row" where
  "exImagingTask reg =
     \<lparr>t_registrationNumber = reg, t_lab_type = None, t_lab_subtype = None,
      t_date_and_time = Some ''2024-05-01 10:00:00'', t_imaging_type = Some ''CT'',
      t_imaging_subtype = Some ''Head'', t_task_status = Some ''unsent''\<rparr>"

definition exOldImaging :: "string \<Rightarrow> oldlab_row" where
  "exOldImaging reg =
     \<lparr>ol_registrationNumber = reg, ol_lab_type = None, ol_lab_subtype = None,
      ol_date_and_time = Some ''2024-04-01 09:00:00'', ol_imaging_type = Some ''X-RAY'',
      ol_imaging_subtype = Some ''Chest''\<rparr>"

definition exConsult :: "string \<Rightarrow> consult_row" where
  "exConsult reg =
     \<lparr>c_registrationNumber = reg, c_consult = Some ''Cardiology'',
      c_date_and_time = Some ''2024-05-01 11:00:00'', c_task_status = Some ''unsent''\<rparr>"

text \<open>Patient R100 (admitted) with rows in each dependent table, and patient R300
  (discharged).\<close>

definition exConn :: conn where
  "exConn =
     \<lparr>tables = \<lparr>patients = [exPatient ''R100'' 0, exPatient ''R300'' 1],
                tasks = [exLabTask ''R100'', exImagingTask ''R300''],
                oldlabs = [exOldImaging ''R100''],
                consultations = [exConsult ''R100''],
                oldconsultations = [exConsult ''R100'']\<rparr>,
      saved = None\<rparr>"

text \<open>The edit form of R100 with the registration number changed to \<open>reg\<close>.\<close>

definition exForm :: "string \<Rightarrow> patient_form" where
  "exForm reg =
     \<lparr>ep_patientName = ''Jane Doe'', ep_age = Some 41, ep_gender = ''Female'',
      ep_registrationNumber = reg, ep_location = ''ICU'', ep_bedNumber = Some 7,
      ep_chiefComplaints = Some ''fever'', ep_provisionalDiagnosis = Some ''sepsis'',
      ep_miscNotes = None, ep_reg_date = ''2024-05-01'', ep_contact = ''5550100''\<rparr>"

definition noFaults :: update_faults where
  "noFaults = \<lparr>f_check = False, f_begin = False, f_patients = False, f_tasks = False,
               f_oldlabs = False, f_commit = False, f_rollback = False\<rparr>"

text \<open>The add form for a patient \<open>reg\<close> with the bed number text \<open>bed\<close>.\<close>

definition exAddForm :: "string \<Rightarrow> string \<Rightarrow> add_patient_form" where
  "exAddForm reg bed =
     \<lparr>ap_registrationNumber = reg, ap_patientName = ''Jane Doe'', ap_age = ''41'',
      ap_gender = ''Female'', ap_location = ''ICU'', ap_bedNumber = bed,
      ap_chiefComplaints = ''fever'', ap_provisionalDiagnosis = ''sepsis'',
      ap_miscNotes = [], ap_number = ''5550100''\<rparr>"

text \<open>\<open>exConn\<close> after R100 was renamed to R200 by \<open>handleUpdate\<close>.\<close>

definition exConnRenamed :: conn where
  "exConnRenamed =
     \<lparr>tables = \<lparr>patients = [exPatient ''R200'' 0, exPatient ''R300'' 1],
                tasks = [exLabTask ''R200'', exImagingTask ''R300''],
                oldlabs = [exOldImaging ''R200''],
                consultations = [exConsult ''R100''],
                oldconsultations = [exConsult ''R100'']\<rparr>,
      saved = None\<rparr>"





definition exLabItem :: view_item where
  "exLabItem =
     \<lparr>vi_type = Some ''blood'', vi_subtype = Some ''contrast'', vi_consult = None,
      vi_task_status = Some ''unsent'', vi_dateTime = Some ''2024-05-01 10:00:00''\<rparr>"

section \<open>Evaluation and helper lemmas\<close>

lemmas js_defs = trim_def isWhiteSpace_def isDigit_def digitsValue_def parseInt_def
  notPositive_def toLowerCase_def lowerChar_def numOrNull_def strOrNull_def

lemmas check_defs = gender_check_def location_check_def lab_type_check_def
  imaging_type_check_def task_status_check_def

lemmas conn_defs = runAsync_def getFirstAsync_def runBegin_def runCommit_def runRollback_def

lemmas ex_defs = exPatient_def exLabTask_def exImagingTask_def exOldImaging_def exConsult_def
  exConn_def exForm_def noFaults_def exAddForm_def exConnRenamed_def exLabItem_def

lemma runAsync_saved: "runAsync f stmt c = Some c' \<Longrightarrow> saved c' = saved c"
  by (auto simp: runAsync_def split: if_splits option.splits)

lemma runAsync_inv:
  "stmt_preserves P stmt \<Longrightarrow> conn_inv P c \<Longrightarrow> runAsync f stmt c = Some c' \<Longrightarrow> conn_inv P c'"
  by (auto simp: runAsync_def conn_inv_def stmt_preserves_def split: if_splits option.splits)

lemma runBegin_inv: "conn_inv P c \<Longrightarrow> runBegin f c = Some c' \<Longrightarrow> conn_inv P c'"
  by (auto simp: runBegin_def conn_inv_def split: if_splits option.splits)

lemma runCommit_inv: "conn_inv P c \<Longrightarrow> runCommit f c = Some c' \<Longrightarrow> conn_inv P c'"
  by (auto simp: runCommit_def conn_inv_def split: if_splits option.splits)

lemma runRollback_inv: "conn_inv P c \<Longrightarrow> runRollback f c = Some c' \<Longrightarrow> conn_inv P c'"
  by (auto simp: runRollback_def conn_inv_def split: if_splits option.splits)

subsection \<open>Handlers that send at most one statement\<close>

lemma one_statement_inv:
  assumes "\<And>stmt. app_stmt stmt \<Longrightarrow> stmt_preserves P stmt" "conn_inv P c" "one_statement c c'"
  shows "conn_inv P c'"
  using assms runAsync_inv unfolding one_statement_def by blast

lemma one_statement_run:
  "app_stmt stmt \<Longrightarrow>
   one_statement c (snd (case runAsync f stmt c of None \<Rightarrow> (e, c) | Some c' \<Rightarrow> (s, c')))"
  unfolding one_statement_def by (cases "runAsync f stmt c") auto

lemma one_statement_Some:
  "app_stmt stmt \<Longrightarrow> runAsync f stmt c = Some c' \<Longrightarrow> one_statement c c'"
  unfolding one_statement_def by blast

lemma one_statement_refl: "one_statement c c"
  by (simp add: one_statement_def)

lemma AddPatient_one: "one_statement c (snd (AddPatient_handleSubmit dbDefined fs fi today f c))"
  by (simp add: AddPatient_handleSubmit_def Let_def one_statement_refl split: option.splits)
     (blast intro: one_statement_Some app_stmt.intros)

lemma discharge_one: "one_statement c (snd (discharge f reg c))"
  by (simp add: discharge_def one_statement_run app_stmt.intros)

lemma reAdmit_one: "one_statement c (snd (reAdmit f reg c))"
  by (simp add: reAdmit_def one_statement_run app_stmt.intros)

lemma handleAddLab_one: "one_statement c (snd (handleAddLab ready f now reg ty sub c))"
  by (simp add: handleAddLab_def one_statement_refl one_statement_run app_stmt.intros)

lemma handleAddOldLab_one: "one_statement c (snd (handleAddOldLab ready f now reg ty sub c))"
  by (simp add: handleAddOldLab_def one_statement_refl one_statement_run app_stmt.intros)

lemma handleAddImaging_one: "one_statement c (snd (handleAddImaging ready f now reg ty sub c))"
  by (simp add: handleAddImaging_def one_statement_refl one_statement_run app_stmt.intros)

lemma handleAddOldImaging_one:
  "one_statement c (snd (handleAddOldImaging ready f now reg ty sub c))"
  by (simp add: handleAddOldImaging_def one_statement_refl one_statement_run app_stmt.intros)

lemma handleAddConsultation_one:
  "one_statement c (snd (handleAddConsultation ready fs fi now reg txt c))"
  by (simp add: handleAddConsultation_def one_statement_refl split: option.splits)
     (blast intro: one_statement_Some app_stmt.intros)

lemma handleAddOldConsultation_one:
  "one_statement c (snd (handleAddOldConsultation ready fs fi now reg txt c))"
  by (simp add: handleAddOldConsultation_def one_statement_refl split: option.splits)
     (blast intro: one_statement_Some app_stmt.intros)

lemma deleteItem_one: "one_statement c (snd (deleteItem f reg table item c))"
  by (simp add: deleteItem_def one_statement_refl one_statement_run app_stmt.intros)

lemma markTaskAsSent_one: "one_statement c (snd (markTaskAsSent f taskType i c))"
  by (simp add: markTaskAsSent_def one_statement_refl one_statement_run app_stmt.intros)

lemma deleteTask_one: "one_statement c (snd (deleteTask f taskType i c))"
  by (simp add: deleteTask_def one_statement_refl one_statement_run app_stmt.intros)

lemma EditTask_one:
  "one_statement c (snd (EditTask_handleSubmit f category reg dateTime itemType sub status c))"
  by (simp add: EditTask_handleSubmit_def one_statement_refl one_statement_run app_stmt.intros
        split: option.splits)

subsection \<open>The transaction of handleUpdate\<close>

lemma update_transaction_Inl:
  assumes "saved c = None" "update_transaction fl orig p ch c = Inl cf"
  shows "cf = c \<or> saved cf = Some (tables c)"
  using assms
  by (auto simp: update_transaction_def runBegin_def runCommit_def
           split: option.splits if_splits sum.splits dest!: runAsync_saved)

lemma rollback_restores:
  assumes "saved c = None" "cf = c \<or> saved cf = Some (tables c)" "\<not> fr"
  shows "(case runRollback fr cf of None \<Rightarrow> cf | Some c' \<Rightarrow> c') = c"
  using assms by (auto simp: runRollback_def split: option.splits)

lemma update_transaction_cascade_fails:
  assumes "f_tasks fl \<or> f_oldlabs fl"
  shows "update_transaction fl orig p True c \<noteq> Inr c'"
  using assms
  by (auto simp: update_transaction_def runAsync_def sql_rename_tasks_def
           split: option.splits if_splits sum.splits)

lemma handleUpdate_failure_unchanged:
  assumes "saved c = None" "\<not> f_rollback fl"
    and "\<forall>m. fst (handleUpdate fl orig patient c) \<noteq> Success m"
  shows "snd (handleUpdate fl orig patient c) = c"
proof (cases patient)
  case None thus ?thesis by (simp add: handleUpdate_def)
next
  case (Some p)
  show ?thesis
  proof (cases "update_transaction fl orig p (ep_registrationNumber p \<noteq> orig) c")
    case (Inl cf)
    from update_transaction_Inl[OF assms(1) Inl]
    have "(case runRollback (f_rollback fl) cf of None \<Rightarrow> cf | Some c' \<Rightarrow> c') = c"
      using rollback_restores assms(1,2) by blast
    thus ?thesis using Some Inl by (simp add: handleUpdate_def Let_def)
  next
    case (Inr c')
    thus ?thesis using Some assms(3) by (auto simp: handleUpdate_def Let_def split: if_splits)
  qed
qed

lemma update_transaction_inv:
  assumes pres: "\<And>stmt. app_stmt stmt \<Longrightarrow> stmt_preserves P stmt"
    and inv: "conn_inv P c"
  shows "case update_transaction fl orig p ch c of
           Inl cf \<Rightarrow> conn_inv P cf | Inr c' \<Rightarrow> conn_inv P c'"
proof (cases "runBegin (f_begin fl) c")
  case None thus ?thesis using inv by (simp add: update_transaction_def)
next
  case (Some c1)
  hence i1: "conn_inv P c1" using runBegin_inv inv by blast
  show ?thesis
  proof (cases "runAsync (f_patients fl) (sql_update_patient p orig) c1")
    case None thus ?thesis using Some i1 by (simp add: update_transaction_def)
  next
    case c2: (Some c2)
    hence i2: "conn_inv P c2" using runAsync_inv[OF pres i1] app_stmt.intros(2) by blast
    show ?thesis
    proof (cases ch)
      case False
      thus ?thesis using Some c2 i2
        by (simp add: update_transaction_def split: option.splits) (blast dest: runCommit_inv)
    next
      case True
      show ?thesis
      proof (cases "runAsync (f_tasks fl) (sql_rename_tasks (ep_registrationNumber p) orig) c2")
        case None thus ?thesis using Some c2 i2 True by (simp add: update_transaction_def)
      next
        case c3: (Some c3)
        hence i3: "conn_inv P c3" using runAsync_inv[OF pres i2] app_stmt.intros(3) by blast
        show ?thesis
        proof (cases "runAsync (f_oldlabs fl)
                        (sql_rename_oldlabs (ep_registrationNumber p) orig) c3")
          case None thus ?thesis using Some c2 c3 i3 True by (simp add: update_transaction_def)
        next
          case c4: (Some c4)
          hence i4: "conn_inv P c4" using runAsync_inv[OF pres i3] app_stmt.intros(4) by blast
          thus ?thesis using Some c2 c3 c4 True
            by (simp add: update_transaction_def split: option.splits) (blast dest: runCommit_inv)
        qed
      qed
    qed
  qed
qed

lemma handleUpdate_inv:
  assumes pres: "\<And>stmt. app_stmt stmt \<Longrightarrow> stmt_preserves P stmt"
    and inv: "conn_inv P c"
  shows "conn_inv P (snd (handleUpdate fl orig patient c))"
proof (cases patient)
  case None thus ?thesis using inv by (simp add: handleUpdate_def)
next
  case (Some p)
  let ?ch = "ep_registrationNumber p \<noteq> orig"
  show ?thesis
  proof (cases "update_transaction fl orig p ?ch c")
    case (Inr c')
    hence "conn_inv P c'" using update_transaction_inv[OF pres inv, of fl orig p ?ch] by simp
    thus ?thesis using Some Inr inv by (simp add: handleUpdate_def Let_def)
  next
    case (Inl cf)
    hence "conn_inv P cf" using update_transaction_inv[OF pres inv, of fl orig p ?ch] by simp
    hence "conn_inv P (case runRollback (f_rollback fl) cf of None \<Rightarrow> cf | Some c' \<Rightarrow> c')"
      by (auto split: option.splits dest: runRollback_inv)
    thus ?thesis using Some Inl inv by (simp add: handleUpdate_def Let_def)
  qed
qed

subsection \<open>Invariants of the reachable states\<close>

lemma perform_inv:
  assumes pres: "\<And>stmt. app_stmt stmt \<Longrightarrow> stmt_preserves P stmt"
    and inv: "conn_inv P c"
  shows "conn_inv P (snd (perform a c))"
proof (cases a)
  case (ActUpdatePatient fl orig p)
  thus ?thesis using handleUpdate_inv[OF pres inv] by simp
qed (simp_all add: one_statement_inv[OF pres inv] AddPatient_one discharge_one reAdmit_one
      handleAddLab_one handleAddOldLab_one handleAddImaging_one handleAddOldImaging_one
      handleAddConsultation_one handleAddOldConsultation_one deleteItem_one markTaskAsSent_one
      deleteTask_one EditTask_one)

lemma reachable_inv:
  assumes pres: "\<And>stmt. app_stmt stmt \<Longrightarrow> stmt_preserves P stmt"
    and init: "P emptyDb" and r: "reachable c"
  shows "conn_inv P c"
  using r
proof (induction rule: reachable.induct)
  case reachable_init
  show ?case using init by (simp add: conn_inv_def initialConn_def)
next
  case (reachable_step c a)
  thus ?case using perform_inv[OF pres] by blast
qed

lemma keys_set_discharged:
  "map (p_registrationNumber \<circ> (\<lambda>r. if Q r then r\<lparr>p_is_discharged := v\<rparr> else r)) xs
     = map p_registrationNumber xs"
  by (induction xs) auto

lemma unique_keys_stmt: "app_stmt stmt \<Longrightarrow> stmt_preserves unique_keys stmt"
proof (induction rule: app_stmt.induct)
  case (1 today pName pAge pGender pReg pLoc pBed pCC pPD pMisc pContact)
  show ?case
    by (auto simp: stmt_preserves_def unique_keys_def sql_insert_patient_def split: if_splits)
next
  case (2 p orig)
  show ?case
    by (auto simp: stmt_preserves_def unique_keys_def sql_update_patient_def Let_def
          split: if_splits)
next
  case (5 v reg)
  show ?case
    by (auto simp: stmt_preserves_def unique_keys_def sql_set_discharged_def keys_set_discharged)
qed (auto simp: stmt_preserves_def unique_keys_def sql_rename_tasks_def sql_rename_oldlabs_def
      sql_insert_task_lab_def sql_insert_task_imaging_def sql_insert_oldlab_lab_def
      sql_insert_oldlab_imaging_def sql_insert_consultation_def sql_insert_oldconsultation_def
      sql_delete_task_item_def sql_delete_oldlab_item_def sql_delete_consultation_item_def
      sql_delete_oldconsultation_item_def sql_mark_sent_lab_def sql_mark_sent_imaging_def
      sql_mark_sent_consultation_def sql_mark_sent_oldconsultation_def sql_delete_pending_lab_def
      sql_delete_pending_imaging_def sql_delete_pending_consultation_def
      sql_delete_pending_oldconsultation_def sql_edit_task_def sql_edit_oldlab_def
      split: if_splits)

lemma list_all_filterI: "list_all P xs \<Longrightarrow> list_all P (filter Q xs)"
  by (induction xs) auto

lemma list_all_map_if:
  "list_all P xs \<Longrightarrow> (\<And>x. P x \<Longrightarrow> Q x \<Longrightarrow> P (g x)) \<Longrightarrow>
   list_all P (map (\<lambda>x. if Q x then g x else x) xs)"
  by (induction xs) auto

lemma payload_stmt: "app_stmt stmt \<Longrightarrow> stmt_preserves payload_exclusive stmt"
proof (induction rule: app_stmt.induct)
  case (24 isLab sub status reg dateTime itemType)
  show ?case
    by (auto simp: stmt_preserves_def payload_exclusive_def sql_edit_task_def
          task_edit_matches_def task_payload_ok_def split: if_splits
          intro!: list_all_map_if)
next
  case (25 isLab sub reg dateTime itemType)
  show ?case
    by (auto simp: stmt_preserves_def payload_exclusive_def sql_edit_oldlab_def
          oldlab_edit_matches_def oldlab_payload_ok_def split: if_splits
          intro!: list_all_map_if)
qed (auto simp: stmt_preserves_def payload_exclusive_def sql_rename_tasks_def sql_rename_oldlabs_def
      sql_insert_patient_def sql_update_patient_def Let_def sql_set_discharged_def
      sql_insert_task_lab_def sql_insert_task_imaging_def sql_insert_oldlab_lab_def
      sql_insert_oldlab_imaging_def sql_insert_consultation_def sql_insert_oldconsultation_def
      sql_delete_task_item_def sql_delete_oldlab_item_def sql_delete_consultation_item_def
      sql_delete_oldconsultation_item_def sql_mark_sent_lab_def sql_mark_sent_imaging_def
      sql_mark_sent_consultation_def sql_mark_sent_oldconsultation_def sql_delete_pending_lab_def
      sql_delete_pending_imaging_def sql_delete_pending_consultation_def
      sql_delete_pending_oldconsultation_def task_payload_ok_def oldlab_payload_ok_def
      split: if_splits intro!: list_all_map_if list_all_filterI)

section \<open>Rename atomicity\<close>

text \<open>
  Claim C1, as the code has it. When \<open>handleUpdate\<close>, started outside a transaction,
  changes the registration number and the cascade statement on \<open>tasks\<close> or on
  \<open>oldlabs\<close> throws, and the \<open>ROLLBACK\<close> the catch block then sends is carried out,
  the whole update is rolled back: the connection after the handler is the connection
  before it, so the row of \<open>patients\<close> and every row of \<open>tasks\<close> and \<open>oldlabs\<close> carry
  the original registration number, and the handler reports the failure.
\<close>

theorem rename_cascade_failure_rolls_back:
  assumes "saved c = None" and "\<not> f_rollback fl"
    and "ep_registrationNumber p \<noteq> orig" and "f_tasks fl \<or> f_oldlabs fl"
  shows "snd (handleUpdate fl orig (Some p) c) = c
       \<and> (\<forall>m. fst (handleUpdate fl orig (Some p) c) \<noteq> Success m)
       \<and> (update_form_valid p
            \<and> \<not> checkRegistrationNumberExists (f_check fl) orig (ep_registrationNumber p) c
          \<longrightarrow> fst (handleUpdate fl orig (Some p) c)
                = StoreIOError ''Failed to update patient details.'')"
proof -
  have nosucc: "\<forall>m. fst (handleUpdate fl orig (Some p) c) \<noteq> Success m"
    using assms(3) update_transaction_cascade_fails[OF assms(4), of orig p c]
    by (auto simp: handleUpdate_def Let_def split: sum.splits)
  have "snd (handleUpdate fl orig (Some p) c) = c"
    using handleUpdate_failure_unchanged[OF assms(1,2) nosucc] .
  moreover have "update_form_valid p
      \<and> \<not> checkRegistrationNumberExists (f_check fl) orig (ep_registrationNumber p) c
    \<longrightarrow> fst (handleUpdate fl orig (Some p) c) = StoreIOError ''Failed to update patient details.''"
    using assms(3) update_transaction_cascade_fails[OF assms(4), of orig p c]
    by (auto simp: handleUpdate_def Let_def update_form_valid_def split: sum.splits)
  ultimately show ?thesis using nosucc by blast
qed

theorem rename_cascade_failure_rolls_back_witness:
  "saved exConn = None \<and> \<not> f_rollback (noFaults\<lparr>f_oldlabs := True\<rparr>)
   \<and> ep_registrationNumber (exForm ''R200'') \<noteq> ''R100''
   \<and> (f_tasks (noFaults\<lparr>f_oldlabs := True\<rparr>) \<or> f_oldlabs (noFaults\<lparr>f_oldlabs := True\<rparr>))
   \<and> update_form_valid (exForm ''R200'')
   \<and> \<not> checkRegistrationNumberExists (f_check (noFaults\<lparr>f_oldlabs := True\<rparr>)) ''R100''
         (ep_registrationNumber (exForm ''R200'')) exConn
   \<and> snd (handleUpdate (noFaults\<lparr>f_oldlabs := True\<rparr>) ''R100'' (Some (exForm ''R200'')) exConn)
       = exConn
   \<and> fst (handleUpdate (noFaults\<lparr>f_oldlabs := True\<rparr>) ''R100'' (Some (exForm ''R200'')) exConn)
       = StoreIOError ''Failed to update patient details.''
   \<and> map p_registrationNumber (patients (tables exConn)) = [''R100'', ''R300'']"
  using rename_cascade_failure_rolls_back
          [of exConn "noFaults\<lparr>f_oldlabs := True\<rparr>" "exForm ''R200''" "''R100''"]
  by (simp add: ex_defs update_form_valid_def js_defs checkRegistrationNumberExists_def
        getFirstAsync_def)

text \<open>
  Claim C1 as the specification states it: after a failing cascade no row reflects the
  new key. The catch block of \<open>handleUpdate\<close> swallows a failure of its own \<open>ROLLBACK\<close>.
  When renaming R100 to R200 the statement on \<open>oldlabs\<close> throws and the \<open>ROLLBACK\<close>
  throws as well, the handler reports the failure while the row of \<open>patients\<close> and the
  row of \<open>tasks\<close> carry R200 and the row of \<open>oldlabs\<close> still carries R100.
\<close>

theorem rename_rollback_failure_keeps_new_key:
  "saved exConn = None
   \<and> ep_registrationNumber (exForm ''R200'') \<noteq> ''R100''
   \<and> f_oldlabs (noFaults\<lparr>f_oldlabs := True, f_rollback := True\<rparr>)
   \<and> fst (handleUpdate (noFaults\<lparr>f_oldlabs := True, f_rollback := True\<rparr>) ''R100''
            (Some (exForm ''R200'')) exConn)
       = StoreIOError ''Failed to update patient details.''
   \<and> map p_registrationNumber (patients (tables exConn)) = [''R100'', ''R300'']
   \<and> map p_registrationNumber (patients (tables (snd
        (handleUpdate (noFaults\<lparr>f_oldlabs := True, f_rollback := True\<rparr>) ''R100''
           (Some (exForm ''R200'')) exConn))))
       = [''R200'', ''R300'']
   \<and> map t_registrationNumber (tasks (tables (snd
        (handleUpdate (noFaults\<lparr>f_oldlabs := True, f_rollback := True\<rparr>) ''R100''
           (Some (exForm ''R200'')) exConn))))
       = [''R200'', ''R300'']
   \<and> map ol_registrationNumber (oldlabs (tables (snd
        (handleUpdate (noFaults\<lparr>f_oldlabs := True, f_rollback := True\<rparr>) ''R100''
           (Some (exForm ''R200'')) exConn))))
       = [''R100'']"
  by (simp add: handleUpdate_def update_transaction_def checkRegistrationNumberExists_def
        sql_update_patient_def update_patient_row_def sql_rename_tasks_def sql_rename_oldlabs_def
        conn_defs check_defs js_defs ex_defs Let_def)

section \<open>A failed pre-check read blocks the rename\<close>

text \<open>
  Claim C10. When the read of \<open>checkRegistrationNumberExists\<close> throws, the function
  returns \<open>true\<close>; \<open>handleUpdate\<close> with a changed registration number then reports
  \<open>Registration number already exists.\<close> and writes nothing: the connection is left as
  it was and the update never succeeds, whatever the other store calls would do.
\<close>

theorem failed_precheck_blocks_rename:
  "checkRegistrationNumberExists True orig regNumber c
   \<and> (f_check fl \<and> ep_registrationNumber p \<noteq> orig \<longrightarrow>
        snd (handleUpdate fl orig (Some p) c) = c
        \<and> (\<forall>m. fst (handleUpdate fl orig (Some p) c) \<noteq> Success m)
        \<and> (update_form_valid p \<longrightarrow>
             fst (handleUpdate fl orig (Some p) c)
               = DuplicateKeyError ''Registration number already exists.''))"
  by (simp add: checkRegistrationNumberExists_def getFirstAsync_def handleUpdate_def Let_def
        update_form_valid_def)

theorem failed_precheck_blocks_rename_witness:
  "f_check (noFaults\<lparr>f_check := True\<rparr>) \<and> ep_registrationNumber (exForm ''R200'') \<noteq> ''R100''
   \<and> update_form_valid (exForm ''R200'')
   \<and> ''R200'' \<notin> set (map p_registrationNumber (patients (tables exConn)))
   \<and> checkRegistrationNumberExists True ''R100'' ''R200'' exConn
   \<and> snd (handleUpdate (noFaults\<lparr>f_check := True\<rparr>) ''R100'' (Some (exForm ''R200'')) exConn)
       = exConn
   \<and> fst (handleUpdate (noFaults\<lparr>f_check := True\<rparr>) ''R100'' (Some (exForm ''R200'')) exConn)
       = DuplicateKeyError ''Registration number already exists.''"
  using failed_precheck_blocks_rename
          [of "''R100''" "''R200''" exConn "noFaults\<lparr>f_check := True\<rparr>" "exForm ''R200''"]
  by (simp add: ex_defs update_form_valid_def js_defs)

subsection \<open>What a committed update writes\<close>

lemma sql_update_patient_frame:
  "sql_update_patient p orig d = Some d' \<Longrightarrow>
   tasks d' = tasks d \<and> oldlabs d' = oldlabs d \<and> consultations d' = consultations d
   \<and> oldconsultations d' = oldconsultations d"
  by (auto simp: sql_update_patient_def Let_def split: if_splits)

lemma update_transaction_committed:
  assumes "update_transaction fl orig p ch c = Inr c'"
  shows "\<exists>d1. sql_update_patient p orig (tables c) = Some d1
           \<and> tables c' =
               (if ch
                then d1\<lparr>tasks := map (\<lambda>r. if t_registrationNumber r = orig
                                          then r\<lparr>t_registrationNumber := ep_registrationNumber p\<rparr>
                                          else r) (tasks d1),
                        oldlabs := map (\<lambda>r. if ol_registrationNumber r = orig
                                            then r\<lparr>ol_registrationNumber := ep_registrationNumber p\<rparr>
                                            else r) (oldlabs d1)\<rparr>
                else d1)"
  using assms
  by (auto simp: update_transaction_def runBegin_def runAsync_def runCommit_def
        sql_rename_tasks_def sql_rename_oldlabs_def
        split: option.splits if_splits sum.splits)

lemma handleUpdate_Success:
  assumes "handleUpdate fl orig (Some p) c = (Success m, c')"
  shows "update_transaction fl orig p (ep_registrationNumber p \<noteq> orig) c = Inr c'"
  using assms by (auto simp: handleUpdate_def Let_def split: if_splits sum.splits)

lemma renamed_tasks_no_old_key:
  "new \<noteq> orig \<Longrightarrow>
   list_all (\<lambda>r. t_registrationNumber r \<noteq> orig)
     (map (\<lambda>r. if t_registrationNumber r = orig then r\<lparr>t_registrationNumber := new\<rparr> else r) xs)"
  by (induction xs) auto

lemma renamed_oldlabs_no_old_key:
  "new \<noteq> orig \<Longrightarrow>
   list_all (\<lambda>r. ol_registrationNumber r \<noteq> orig)
     (map (\<lambda>r. if ol_registrationNumber r = orig then r\<lparr>ol_registrationNumber := new\<rparr> else r) xs)"
  by (induction xs) auto

lemma ex_rename_commits:
  "handleUpdate noFaults ''R100'' (Some (exForm ''R200'')) exConn
     = (Success ''Patient details updated successfully.'', exConnRenamed)"
  by (simp add: handleUpdate_def update_transaction_def checkRegistrationNumberExists_def
        sql_update_patient_def update_patient_row_def sql_rename_tasks_def sql_rename_oldlabs_def
        conn_defs check_defs js_defs ex_defs Let_def)

lemma ex_same_key_commits:
  "handleUpdate noFaults ''R100'' (Some (exForm ''R100'')) exConn
     = (Success ''Patient details updated successfully.'', exConn)"
  by (simp add: handleUpdate_def update_transaction_def checkRegistrationNumberExists_def
        sql_update_patient_def update_patient_row_def sql_rename_tasks_def sql_rename_oldlabs_def
        conn_defs check_defs js_defs ex_defs Let_def)

section \<open>The cascade of a rename\<close>

text \<open>
  Claim C4. When \<open>handleUpdate\<close> commits a changed registration number, every row of
  \<open>tasks\<close> and of \<open>oldlabs\<close> that carried the old number carries the new one (and no row
  of the two tables carries the old one any more), while \<open>consultations\<close> and
  \<open>oldconsultations\<close> are as they were, still under the old number; when the submitted
  number is the original one, none of the four dependent tables changes.
\<close>

theorem rename_cascades_to_tasks_and_oldlabs_only:
  assumes "handleUpdate fl orig (Some p) c = (Success m, c')"
  shows "consultations (tables c') = consultations (tables c)
       \<and> oldconsultations (tables c') = oldconsultations (tables c)
       \<and> (ep_registrationNumber p \<noteq> orig \<longrightarrow>
            tasks (tables c') =
              map (\<lambda>r. if t_registrationNumber r = orig
                       then r\<lparr>t_registrationNumber := ep_registrationNumber p\<rparr> else r)
                (tasks (tables c))
            \<and> oldlabs (tables c') =
              map (\<lambda>r. if ol_registrationNumber r = orig
                       then r\<lparr>ol_registrationNumber := ep_registrationNumber p\<rparr> else r)
                (oldlabs (tables c))
            \<and> list_all (\<lambda>r. t_registrationNumber r \<noteq> orig) (tasks (tables c'))
            \<and> list_all (\<lambda>r. ol_registrationNumber r \<noteq> orig) (oldlabs (tables c')))
       \<and> (ep_registrationNumber p = orig \<longrightarrow>
            tasks (tables c') = tasks (tables c) \<and> oldlabs (tables c') = oldlabs (tables c))"
proof -
  from update_transaction_committed[OF handleUpdate_Success[OF assms]]
  obtain d1 where d1: "sql_update_patient p orig (tables c) = Some d1"
    and t: "tables c' =
               (if ep_registrationNumber p \<noteq> orig
                then d1\<lparr>tasks := map (\<lambda>r. if t_registrationNumber r = orig
                                          then r\<lparr>t_registrationNumber := ep_registrationNumber p\<rparr>
                                          else r) (tasks d1),
                        oldlabs := map (\<lambda>r. if ol_registrationNumber r = orig
                                            then r\<lparr>ol_registrationNumber := ep_registrationNumber p\<rparr>
                                            else r) (oldlabs d1)\<rparr>
                else d1)"
    by blast
  note fr = sql_update_patient_frame[OF d1]
  show ?thesis
  proof (cases "ep_registrationNumber p = orig")
    case True
    thus ?thesis using t fr by simp
  next
    case False
    thus ?thesis using t fr
      by (simp add: renamed_tasks_no_old_key renamed_oldlabs_no_old_key)
  qed
qed

theorem rename_cascades_to_tasks_and_oldlabs_only_witness:
  "handleUpdate noFaults ''R100'' (Some (exForm ''R200'')) exConn
     = (Success ''Patient details updated successfully.'', exConnRenamed)
   \<and> ep_registrationNumber (exForm ''R200'') \<noteq> ''R100''
   \<and> tasks (tables exConnRenamed) =
       map (\<lambda>r. if t_registrationNumber r = ''R100''
                then r\<lparr>t_registrationNumber := ep_registrationNumber (exForm ''R200'')\<rparr> else r)
         (tasks (tables exConn))
   \<and> oldlabs (tables exConnRenamed) =
       map (\<lambda>r. if ol_registrationNumber r = ''R100''
                then r\<lparr>ol_registrationNumber := ep_registrationNumber (exForm ''R200'')\<rparr> else r)
         (oldlabs (tables exConn))
   \<and> consultations (tables exConnRenamed) = consultations (tables exConn)
   \<and> oldconsultations (tables exConnRenamed) = oldconsultations (tables exConn)
   \<and> map c_registrationNumber (consultations (tables exConnRenamed)) = [''R100'']
   \<and> handleUpdate noFaults ''R100'' (Some (exForm ''R100'')) exConn
     = (Success ''Patient details updated successfully.'', exConn)
   \<and> ep_registrationNumber (exForm ''R100'') = ''R100''"
proof -
  have ne: "ep_registrationNumber (exForm ''R200'') \<noteq> ''R100''"
    and eq: "ep_registrationNumber (exForm ''R100'') = ''R100''"
    by (simp_all add: exForm_def)
  have "map c_registrationNumber (consultations (tables exConnRenamed)) = [''R100'']"
    by (simp add: exConnRenamed_def exConsult_def)
  thus ?thesis
    using rename_cascades_to_tasks_and_oldlabs_only[OF ex_rename_commits]
      rename_cascades_to_tasks_and_oldlabs_only[OF ex_same_key_commits]
      ex_rename_commits ex_same_key_commits ne eq
    by blast
qed

subsection \<open>Rejected duplicates\<close>

lemma find_key_present:
  "k \<in> set (map f xs) \<Longrightarrow> find (\<lambda>r. f r = k) xs \<noteq> None"
  by (auto simp: find_None_iff)

lemma AddPatient_duplicate_unchanged:
  assumes "trim (ap_registrationNumber f) \<in> set (map p_registrationNumber (patients (tables c)))"
  shows "snd (AddPatient_handleSubmit dbDefined fs fi today f c) = c"
  using find_key_present[OF assms]
  by (auto simp: AddPatient_handleSubmit_def Let_def getFirstAsync_def sql_find_patient_def
        split: option.splits)

lemma AddPatient_duplicate_reported:
  assumes "trim (ap_registrationNumber f) \<in> set (map p_registrationNumber (patients (tables c)))"
    and "add_form_valid f"
  shows "fst (AddPatient_handleSubmit True False fi today f c)
           = DuplicateKeyError (''Patient with registration number '' @ [CHR 0x27]
               @ ap_registrationNumber f @ [CHR 0x27] @ '' already exists.'')"
  using find_key_present[OF assms(1)] assms(2)
  by (auto simp: AddPatient_handleSubmit_def Let_def getFirstAsync_def sql_find_patient_def
        add_form_valid_def split: option.splits)

lemma checkRegistrationNumberExists_present:
  assumes "regNumber \<noteq> orig"
    and "regNumber \<in> set (map p_registrationNumber (patients (tables c)))"
  shows "checkRegistrationNumberExists fault orig regNumber c"
proof -
  from assms(2) obtain r where "r \<in> set (patients (tables c))" "p_registrationNumber r = regNumber"
    by auto
  hence "find (\<lambda>r. p_registrationNumber r = regNumber \<and> p_registrationNumber r \<noteq> orig)
           (patients (tables c)) \<noteq> None"
    using assms(1) by (auto simp: find_None_iff)
  thus ?thesis
    by (auto simp: checkRegistrationNumberExists_def getFirstAsync_def split: option.splits)
qed

lemma handleUpdate_duplicate:
  assumes "checkRegistrationNumberExists (f_check fl) orig (ep_registrationNumber p) c"
    and "ep_registrationNumber p \<noteq> orig"
  shows "snd (handleUpdate fl orig (Some p) c) = c"
    and "\<forall>m. fst (handleUpdate fl orig (Some p) c) \<noteq> Success m"
    and "update_form_valid p \<Longrightarrow>
         fst (handleUpdate fl orig (Some p) c)
           = DuplicateKeyError ''Registration number already exists.''"
  using assms by (simp_all add: handleUpdate_def Let_def update_form_valid_def)

lemma ex_first_patient:
  "map p_registrationNumber
     (patients (tables (snd (perform
        (ActAddPatient True False False ''2024-05-01'' (exAddForm ''R100'' ''7'')) initialConn))))
   = [''R100'']"
  by (simp add: AddPatient_handleSubmit_def sql_find_patient_def sql_insert_patient_def
        initialConn_def emptyDb_def conn_defs check_defs js_defs ex_defs Let_def)

section \<open>Uniqueness of the registration number\<close>

text \<open>
  Claim C2. In every state the application can reach, no two rows of \<open>patients\<close> share a
  registration number, and every handler keeps it so. \<open>handleSubmit\<close> of AddPatient,
  given a registration number that a row of \<open>patients\<close> already carries (discharged or
  not), inserts nothing and, when the form is valid and the read succeeds, reports the
  duplicate. \<open>handleUpdate\<close>, given a registration number that differs from the original
  and is carried by a row of \<open>patients\<close>, leaves the connection unchanged, never
  succeeds, and reports the duplicate when the form is valid.
\<close>

theorem registration_numbers_unique:
  "(reachable c \<longrightarrow> distinct (map p_registrationNumber (patients (tables c))))
   \<and> (conn_inv unique_keys c0 \<longrightarrow> conn_inv unique_keys (snd (perform a c0)))
   \<and> (trim (ap_registrationNumber f) \<in> set (map p_registrationNumber (patients (tables c1)))
        \<longrightarrow> snd (AddPatient_handleSubmit dbDefined fs fi today f c1) = c1
            \<and> (add_form_valid f \<longrightarrow>
                 fst (AddPatient_handleSubmit True False fi today f c1)
                   = DuplicateKeyError (''Patient with registration number '' @ [CHR 0x27]
                       @ ap_registrationNumber f @ [CHR 0x27] @ '' already exists.'')))
   \<and> (ep_registrationNumber p \<noteq> orig
        \<and> ep_registrationNumber p \<in> set (map p_registrationNumber (patients (tables c2)))
        \<longrightarrow> snd (handleUpdate fl orig (Some p) c2) = c2
            \<and> (\<forall>m. fst (handleUpdate fl orig (Some p) c2) \<noteq> Success m)
            \<and> (update_form_valid p \<longrightarrow>
                 fst (handleUpdate fl orig (Some p) c2)
                   = DuplicateKeyError ''Registration number already exists.''))"
proof (intro conjI impI)
  assume "reachable c"
  from reachable_inv[OF unique_keys_stmt _ this]
  show "distinct (map p_registrationNumber (patients (tables c)))"
    by (simp add: conn_inv_def unique_keys_def emptyDb_def)
next
  assume "conn_inv unique_keys c0"
  from perform_inv[OF unique_keys_stmt this]
  show "conn_inv unique_keys (snd (perform a c0))" .
next
  assume "trim (ap_registrationNumber f) \<in> set (map p_registrationNumber (patients (tables c1)))"
  thus "snd (AddPatient_handleSubmit dbDefined fs fi today f c1) = c1"
    by (rule AddPatient_duplicate_unchanged)
next
  assume "trim (ap_registrationNumber f) \<in> set (map p_registrationNumber (patients (tables c1)))"
    and "add_form_valid f"
  thus "fst (AddPatient_handleSubmit True False fi today f c1)
          = DuplicateKeyError (''Patient with registration number '' @ [CHR 0x27]
              @ ap_registrationNumber f @ [CHR 0x27] @ '' already exists.'')"
    by (rule AddPatient_duplicate_reported)
next
  assume h: "ep_registrationNumber p \<noteq> orig
     \<and> ep_registrationNumber p \<in> set (map p_registrationNumber (patients (tables c2)))"
  hence ex: "checkRegistrationNumberExists (f_check fl) orig (ep_registrationNumber p) c2"
    using checkRegistrationNumberExists_present by blast
  show "snd (handleUpdate fl orig (Some p) c2) = c2"
    using handleUpdate_duplicate(1)[OF ex] h by blast
next
  assume h: "ep_registrationNumber p \<noteq> orig
     \<and> ep_registrationNumber p \<in> set (map p_registrationNumber (patients (tables c2)))"
  hence ex: "checkRegistrationNumberExists (f_check fl) orig (ep_registrationNumber p) c2"
    using checkRegistrationNumberExists_present by blast
  show "\<forall>m. fst (handleUpdate fl orig (Some p) c2) \<noteq> Success m"
    using handleUpdate_duplicate(2)[OF ex] h by blast
next
  assume h: "ep_registrationNumber p \<noteq> orig
     \<and> ep_registrationNumber p \<in> set (map p_registrationNumber (patients (tables c2)))"
    and v: "update_form_valid p"
  hence ex: "checkRegistrationNumberExists (f_check fl) orig (ep_registrationNumber p) c2"
    using checkRegistrationNumberExists_present by blast
  show "fst (handleUpdate fl orig (Some p) c2)
          = DuplicateKeyError ''Registration number already exists.''"
    using handleUpdate_duplicate(3)[OF ex _ v] h by blast
qed

theorem registration_numbers_unique_witness:
  "reachable (snd (perform (ActAddPatient True False False ''2024-05-01''
                              (exAddForm ''R100'' ''7'')) initialConn))
   \<and> map p_registrationNumber (patients (tables (snd (perform
        (ActAddPatient True False False ''2024-05-01'' (exAddForm ''R100'' ''7'')) initialConn))))
       = [''R100'']
   \<and> conn_inv unique_keys exConn
   \<and> conn_inv unique_keys (snd (perform (ActDischarge False ''R100'') exConn))
   \<and> trim (ap_registrationNumber (exAddForm '' R300'' ''7''))
        \<in> set (map p_registrationNumber (patients (tables exConn)))
   \<and> add_form_valid (exAddForm '' R300'' ''7'')
   \<and> AddPatient_handleSubmit True False False ''2024-05-02'' (exAddForm '' R300'' ''7'') exConn
       = (DuplicateKeyError (''Patient with registration number '' @ [CHR 0x27]
            @ '' R300'' @ [CHR 0x27] @ '' already exists.''), exConn)
   \<and> ep_registrationNumber (exForm ''R300'') \<noteq> ''R100''
   \<and> ep_registrationNumber (exForm ''R300'')
        \<in> set (map p_registrationNumber (patients (tables exConn)))
   \<and> update_form_valid (exForm ''R300'')
   \<and> handleUpdate noFaults ''R100'' (Some (exForm ''R300'')) exConn
       = (DuplicateKeyError ''Registration number already exists.'', exConn)"
proof -
  have r: "reachable (snd (perform (ActAddPatient True False False ''2024-05-01''
                              (exAddForm ''R100'' ''7'')) initialConn))"
    by (rule reachable_step[OF reachable_init])
  have u: "conn_inv unique_keys exConn"
    by (simp add: conn_inv_def unique_keys_def ex_defs)
  have k1: "trim (ap_registrationNumber (exAddForm '' R300'' ''7''))
        \<in> set (map p_registrationNumber (patients (tables exConn)))"
    by (simp add: ex_defs js_defs)
  have v1: "add_form_valid (exAddForm '' R300'' ''7'')"
    by (simp add: add_form_valid_def ex_defs js_defs)
  have k2: "ep_registrationNumber (exForm ''R300'') \<noteq> ''R100''
     \<and> ep_registrationNumber (exForm ''R300'')
        \<in> set (map p_registrationNumber (patients (tables exConn)))"
    by (simp add: ex_defs)
  have v2: "update_form_valid (exForm ''R300'')"
    by (simp add: update_form_valid_def ex_defs js_defs)
  have a: "ap_registrationNumber (exAddForm '' R300'' ''7'') = '' R300''"
    by (simp add: exAddForm_def)
  show ?thesis
    using registration_numbers_unique
      [of "snd (perform (ActAddPatient True False False ''2024-05-01''
                              (exAddForm ''R100'' ''7'')) initialConn)"
          exConn "ActDischarge False ''R100''" "exAddForm '' R300'' ''7''" exConn
          True False False "''2024-05-02''" "exForm ''R300''" "''R100''" exConn noFaults]
      r u k1 v1 k2 v2 ex_first_patient
    by (simp add: prod_eq_iff a)
qed

section \<open>Payload exclusivity\<close>

text \<open>
  Claim C3. In every state the application can reach, each row of \<open>tasks\<close> and each row
  of \<open>oldlabs\<close> has exactly one payload: the lab type and subtype both set and the
  imaging columns NULL, or the imaging type and subtype both set and the lab columns
  NULL. Every handler, and every statement a handler sends (the inserts and the edits
  among them), keeps it so.
\<close>

theorem payload_exclusivity:
  "(reachable c \<longrightarrow>
      list_all task_payload_ok (tasks (tables c))
      \<and> list_all oldlab_payload_ok (oldlabs (tables c)))
   \<and> (conn_inv payload_exclusive c0 \<longrightarrow> conn_inv payload_exclusive (snd (perform a c0)))
   \<and> (app_stmt stmt \<and> payload_exclusive d \<and> stmt d = Some d' \<longrightarrow> payload_exclusive d')"
proof (intro conjI impI)
  assume "reachable c"
  from reachable_inv[OF payload_stmt _ this]
  have "payload_exclusive (tables c)"
    by (simp add: conn_inv_def payload_exclusive_def emptyDb_def)
  thus "list_all task_payload_ok (tasks (tables c))"
    and "list_all oldlab_payload_ok (oldlabs (tables c))"
    by (simp_all add: payload_exclusive_def)
next
  assume "conn_inv payload_exclusive c0"
  from perform_inv[OF payload_stmt this]
  show "conn_inv payload_exclusive (snd (perform a c0))" .
next
  assume "app_stmt stmt \<and> payload_exclusive d \<and> stmt d = Some d'"
  thus "payload_exclusive d'"
    using payload_stmt unfolding stmt_preserves_def by blast
qed

lemma ex_first_task:
  "tasks (tables (snd (perform
      (ActAddLab True False ''2024-05-01 10:00:00'' ''R100'' ''blood'' '' CBC '') initialConn)))
   = [exLabTask ''R100'']"
  by (simp add: handleAddLab_def sql_insert_task_lab_def
        initialConn_def emptyDb_def conn_defs check_defs js_defs ex_defs)

theorem payload_exclusivity_witness:
  "reachable (snd (perform (ActAddLab True False ''2024-05-01 10:00:00'' ''R100'' ''blood''
                              '' CBC '') initialConn))
   \<and> tasks (tables (snd (perform (ActAddLab True False ''2024-05-01 10:00:00'' ''R100'' ''blood''
                              '' CBC '') initialConn))) = [exLabTask ''R100'']
   \<and> list_all task_payload_ok [exLabTask ''R100'']
   \<and> conn_inv payload_exclusive exConn
   \<and> conn_inv payload_exclusive (snd (perform
        (ActEditTask False (determineCategory ''tasks'' ''blood'') ''R100'' ''2024-05-01 10:00:00''
           ''blood'' ''CBC with differential'' ''sent'') exConn))
   \<and> app_stmt (sql_insert_oldlab_imaging ''2024-05-02 08:00:00'' ''R300'' ''USG'' ''Abdomen'')
   \<and> payload_exclusive (tables exConn)
   \<and> sql_insert_oldlab_imaging ''2024-05-02 08:00:00'' ''R300'' ''USG'' ''Abdomen'' (tables exConn)
       = Some ((tables exConn)\<lparr>oldlabs := [exOldImaging ''R100'',
            \<lparr>ol_registrationNumber = ''R300'', ol_lab_type = None, ol_lab_subtype = None,
             ol_date_and_time = Some ''2024-05-02 08:00:00'', ol_imaging_type = Some ''USG'',
             ol_imaging_subtype = Some ''Abdomen''\<rparr>]\<rparr>)
   \<and> payload_exclusive ((tables exConn)\<lparr>oldlabs := [exOldImaging ''R100'',
            \<lparr>ol_registrationNumber = ''R300'', ol_lab_type = None, ol_lab_subtype = None,
             ol_date_and_time = Some ''2024-05-02 08:00:00'', ol_imaging_type = Some ''USG'',
             ol_imaging_subtype = Some ''Abdomen''\<rparr>]\<rparr>)"
proof -
  have r: "reachable (snd (perform (ActAddLab True False ''2024-05-01 10:00:00'' ''R100'' ''blood''
                              '' CBC '') initialConn))"
    by (rule reachable_step[OF reachable_init])
  have i: "conn_inv payload_exclusive exConn" and pe: "payload_exclusive (tables exConn)"
    by (simp_all add: conn_inv_def payload_exclusive_def task_payload_ok_def
          oldlab_payload_ok_def ex_defs)
  have s: "app_stmt (sql_insert_oldlab_imaging ''2024-05-02 08:00:00'' ''R300'' ''USG'' ''Abdomen'')"
    by (rule app_stmt.intros)
  have e: "sql_insert_oldlab_imaging ''2024-05-02 08:00:00'' ''R300'' ''USG'' ''Abdomen''
             (tables exConn)
       = Some ((tables exConn)\<lparr>oldlabs := [exOldImaging ''R100'',
            \<lparr>ol_registrationNumber = ''R300'', ol_lab_type = None, ol_lab_subtype = None,
             ol_date_and_time = Some ''2024-05-02 08:00:00'', ol_imaging_type = Some ''USG'',
             ol_imaging_subtype = Some ''Abdomen''\<rparr>]\<rparr>)"
    by (simp add: sql_insert_oldlab_imaging_def check_defs exConn_def)
  show ?thesis
    using payload_exclusivity
      [of "snd (perform (ActAddLab True False ''2024-05-01 10:00:00'' ''R100'' ''blood''
                              '' CBC '') initialConn)"
          exConn
          "ActEditTask False (determineCategory ''tasks'' ''blood'') ''R100''
             ''2024-05-01 10:00:00'' ''blood'' ''CBC with differential'' ''sent''"
          "sql_insert_oldlab_imaging ''2024-05-02 08:00:00'' ''R300'' ''USG'' ''Abdomen''"
          "tables exConn"
          "(tables exConn)\<lparr>oldlabs := [exOldImaging ''R100'',
            \<lparr>ol_registrationNumber = ''R300'', ol_lab_type = None, ol_lab_subtype = None,
             ol_date_and_time = Some ''2024-05-02 08:00:00'', ol_imaging_type = Some ''USG'',
             ol_imaging_subtype = Some ''Abdomen''\<rparr>]\<rparr>"]
      r i pe s e ex_first_task
    by simp
qed

subsection \<open>Adding consultations\<close>






section \<open>Duplicate consultations\<close>



subsection \<open>Status of a new task\<close>









section \<open>Status of a task\<close>



subsection \<open>Deleting from the task list\<close>













section \<open>What a delete from the task list removes\<close>




subsection \<open>Discharge and re-admission\<close>

lemma discharge_ok:
  "discharge False reg c
     = (Success ''Patient discharged successfully.'',
        c\<lparr>tables := (tables c)\<lparr>patients :=
             map (\<lambda>r. if p_registrationNumber r = reg then r\<lparr>p_is_discharged := 1\<rparr> else r)
               (patients (tables c))\<rparr>\<rparr>)"
  by (simp add: discharge_def runAsync_def sql_set_discharged_def)

lemma reAdmit_ok:
  "reAdmit False reg c
     = (Success ''Patient re-admitted successfully.'',
        c\<lparr>tables := (tables c)\<lparr>patients :=
             map (\<lambda>r. if p_registrationNumber r = reg then r\<lparr>p_is_discharged := 0\<rparr> else r)
               (patients (tables c))\<rparr>\<rparr>)"
  by (simp add: reAdmit_def runAsync_def sql_set_discharged_def)

lemma set_flag_twice:
  "map (\<lambda>r. if p_registrationNumber r = reg then r\<lparr>p_is_discharged := v\<rparr> else r)
     (map (\<lambda>r. if p_registrationNumber r = reg then r\<lparr>p_is_discharged := w\<rparr> else r) xs)
   = map (\<lambda>r. if p_registrationNumber r = reg then r\<lparr>p_is_discharged := v\<rparr> else r) xs"
  by (induction xs) auto

lemma set_flag_value:
  "list_all (\<lambda>r. p_registrationNumber r = reg \<longrightarrow> p_is_discharged r = v)
     (map (\<lambda>r. if p_registrationNumber r = reg then r\<lparr>p_is_discharged := v\<rparr> else r) xs)"
  by (induction xs) auto

lemma set_flag_same:
  "list_all (\<lambda>r. p_registrationNumber r = reg \<longrightarrow> p_is_discharged r = v) xs \<Longrightarrow>
   map (\<lambda>r. if p_registrationNumber r = reg then r\<lparr>p_is_discharged := v\<rparr> else r) xs = xs"
  by (induction xs) auto

lemma set_flag_frame:
  "map (\<lambda>r. r\<lparr>p_is_discharged := 0\<rparr>)
     (map (\<lambda>r. if p_registrationNumber r = reg then r\<lparr>p_is_discharged := v\<rparr> else r) xs)
   = map (\<lambda>r. r\<lparr>p_is_discharged := 0\<rparr>) xs"
  by (induction xs) auto

lemma set_flag_others:
  "filter (\<lambda>r. p_registrationNumber r \<noteq> reg)
     (map (\<lambda>r. if p_registrationNumber r = reg then r\<lparr>p_is_discharged := v\<rparr> else r) xs)
   = filter (\<lambda>r. p_registrationNumber r \<noteq> reg) xs"
  by (induction xs) auto

section \<open>Discharge and re-admission are idempotent\<close>

text \<open>
  Claim C9. For store calls that do not fail: discharging twice gives the state of one
  discharge, in which every row of the registration number has \<open>is_discharged = 1\<close>;
  re-admitting a patient whose rows have \<open>is_discharged = 0\<close> changes nothing, and after
  any re-admission the rows of the registration number have \<open>is_discharged = 0\<close>;
  re-admitting and then discharging gives the state of one discharge. Neither handler
  changes a column other than \<open>is_discharged\<close>, a row of another registration number,
  another table, or the transaction state.
\<close>

theorem discharge_readmit_idempotent:
  "snd (discharge False reg (snd (discharge False reg c))) = snd (discharge False reg c)
   \<and> list_all (\<lambda>r. p_registrationNumber r = reg \<longrightarrow> p_is_discharged r = 1)
        (patients (tables (snd (discharge False reg c))))
   \<and> (list_all (\<lambda>r. p_registrationNumber r = reg \<longrightarrow> p_is_discharged r = 0)
        (patients (tables c)) \<longrightarrow> snd (reAdmit False reg c) = c)
   \<and> snd (reAdmit False reg (snd (reAdmit False reg c))) = snd (reAdmit False reg c)
   \<and> list_all (\<lambda>r. p_registrationNumber r = reg \<longrightarrow> p_is_discharged r = 0)
        (patients (tables (snd (reAdmit False reg c))))
   \<and> snd (discharge False reg (snd (reAdmit False reg c))) = snd (discharge False reg c)
   \<and> map (\<lambda>r. r\<lparr>p_is_discharged := 0\<rparr>) (patients (tables (snd (discharge False reg c))))
       = map (\<lambda>r. r\<lparr>p_is_discharged := 0\<rparr>) (patients (tables c))
   \<and> map (\<lambda>r. r\<lparr>p_is_discharged := 0\<rparr>) (patients (tables (snd (reAdmit False reg c))))
       = map (\<lambda>r. r\<lparr>p_is_discharged := 0\<rparr>) (patients (tables c))
   \<and> filter (\<lambda>r. p_registrationNumber r \<noteq> reg) (patients (tables (snd (discharge False reg c))))
       = filter (\<lambda>r. p_registrationNumber r \<noteq> reg) (patients (tables c))
   \<and> filter (\<lambda>r. p_registrationNumber r \<noteq> reg) (patients (tables (snd (reAdmit False reg c))))
       = filter (\<lambda>r. p_registrationNumber r \<noteq> reg) (patients (tables c))
   \<and> snd (discharge False reg c)
       = c\<lparr>tables := (tables c)\<lparr>patients := patients (tables (snd (discharge False reg c)))\<rparr>\<rparr>
   \<and> snd (reAdmit False reg c)
       = c\<lparr>tables := (tables c)\<lparr>patients := patients (tables (snd (reAdmit False reg c)))\<rparr>\<rparr>"
  by (simp add: discharge_ok reAdmit_ok set_flag_twice set_flag_value set_flag_same
        set_flag_frame set_flag_others)

theorem discharge_readmit_idempotent_witness:
  "list_all (\<lambda>r. p_registrationNumber r = ''R100'' \<longrightarrow> p_is_discharged r = 0)
        (patients (tables exConn))
   \<and> snd (reAdmit False ''R100'' exConn) = exConn
   \<and> snd (discharge False ''R100'' (snd (discharge False ''R100'' exConn)))
       = snd (discharge False ''R100'' exConn)
   \<and> snd (discharge False ''R100'' (snd (reAdmit False ''R100'' exConn)))
       = snd (discharge False ''R100'' exConn)
   \<and> list_all (\<lambda>r. p_registrationNumber r = ''R100'' \<longrightarrow> p_is_discharged r = 1)
        (patients (tables (snd (discharge False ''R100'' exConn))))
   \<and> length (filter (\<lambda>r. p_registrationNumber r = ''R100'') (patients (tables exConn))) = 1"
proof -
  have h: "list_all (\<lambda>r. p_registrationNumber r = ''R100'' \<longrightarrow> p_is_discharged r = 0)
        (patients (tables exConn))"
    and l: "length (filter (\<lambda>r. p_registrationNumber r = ''R100'') (patients (tables exConn))) = 1"
    by (simp_all add: ex_defs)
  show ?thesis
    using discharge_readmit_idempotent[of "''R100''" exConn] h l by blast
qed

subsection \<open>Validation of the add form\<close>

lemma AddPatient_validation_iff:
  "(\<exists>m. fst (AddPatient_handleSubmit True fs fi today f c) = ValidationError m)
     = (\<not> add_form_valid f)"
proof (cases "add_form_valid f")
  case True
  thus ?thesis
    by (auto simp: AddPatient_handleSubmit_def add_form_valid_def Let_def
          split: option.splits)
next
  case False
  thus ?thesis
    by (auto simp: AddPatient_handleSubmit_def add_form_valid_def Let_def)
qed

lemma AddPatient_validation_unchanged:
  "fst (AddPatient_handleSubmit dbDefined fs fi today f c) = ValidationError m \<Longrightarrow>
   snd (AddPatient_handleSubmit dbDefined fs fi today f c) = c"
  by (auto simp: AddPatient_handleSubmit_def Let_def split: if_splits option.splits)

section \<open>Validation when a patient is created\<close>

text \<open>
  Claim C8, as the code has it. With a database handle, \<open>handleSubmit\<close> of AddPatient
  reports a validation error exactly when one of the registration number, the patient
  name, the age, the bed number, the chief complaints, the provisional diagnosis and
  the contact number is blank, or \<open>parseInt\<close> of the age is \<open>NaN\<close> or not positive, or
  \<open>parseInt\<close> of the bed number is \<open>NaN\<close> or not positive. The bed number is required: a
  blank bed number is a validation error whatever the other fields hold. A validation
  error is reported before any store call: the connection is unchanged, whichever store
  calls would fail.
\<close>

theorem create_patient_validation:
  "((\<exists>m. fst (AddPatient_handleSubmit True fs fi today f c) = ValidationError m)
      = (trim (ap_registrationNumber f) = [] \<or> trim (ap_patientName f) = []
         \<or> trim (ap_age f) = [] \<or> trim (ap_bedNumber f) = []
         \<or> trim (ap_chiefComplaints f) = [] \<or> trim (ap_provisionalDiagnosis f) = []
         \<or> trim (ap_number f) = []
         \<or> notPositive (parseInt (ap_age f)) \<or> notPositive (parseInt (ap_bedNumber f))))
   \<and> (trim (ap_bedNumber f) = [] \<longrightarrow>
        AddPatient_handleSubmit True fs fi today f c
          = (ValidationError ''All fields are required!'', c))
   \<and> (fst (AddPatient_handleSubmit dbDefined fs fi today f c) = ValidationError m \<longrightarrow>
        snd (AddPatient_handleSubmit dbDefined fs fi today f c) = c)"
proof (intro conjI impI)
  show "(\<exists>m. fst (AddPatient_handleSubmit True fs fi today f c) = ValidationError m)
      = (trim (ap_registrationNumber f) = [] \<or> trim (ap_patientName f) = []
         \<or> trim (ap_age f) = [] \<or> trim (ap_bedNumber f) = []
         \<or> trim (ap_chiefComplaints f) = [] \<or> trim (ap_provisionalDiagnosis f) = []
         \<or> trim (ap_number f) = []
         \<or> notPositive (parseInt (ap_age f)) \<or> notPositive (parseInt (ap_bedNumber f)))"
    unfolding AddPatient_validation_iff by (auto simp: add_form_valid_def)
next
  assume "trim (ap_bedNumber f) = []"
  thus "AddPatient_handleSubmit True fs fi today f c
          = (ValidationError ''All fields are required!'', c)"
    by (simp add: AddPatient_handleSubmit_def)
next
  assume "fst (AddPatient_handleSubmit dbDefined fs fi today f c) = ValidationError m"
  thus "snd (AddPatient_handleSubmit dbDefined fs fi today f c) = c"
    by (rule AddPatient_validation_unchanged)
qed

theorem create_patient_validation_witness:
  "trim (ap_bedNumber (exAddForm ''R400'' ''  '')) = []
   \<and> AddPatient_handleSubmit True False False ''2024-05-02'' (exAddForm ''R400'' ''  '') exConn
       = (ValidationError ''All fields are required!'', exConn)
   \<and> notPositive (parseInt (ap_bedNumber (exAddForm ''R400'' ''0'')))
   \<and> (\<exists>m. fst (AddPatient_handleSubmit True False False ''2024-05-02''
                 (exAddForm ''R400'' ''0'') exConn) = ValidationError m)
   \<and> \<not> notPositive (parseInt (ap_bedNumber (exAddForm ''R400'' ''12a'')))
   \<and> \<not> (\<exists>m. fst (AddPatient_handleSubmit True False False ''2024-05-02''
                   (exAddForm ''R400'' ''12a'') exConn) = ValidationError m)"
proof -
  have a: "trim (ap_bedNumber (exAddForm ''R400'' ''  '')) = []"
    by (simp add: exAddForm_def js_defs)
  have b: "notPositive (parseInt (ap_bedNumber (exAddForm ''R400'' ''0'')))"
    by (simp add: exAddForm_def js_defs)
  have v: "\<not> (trim (ap_registrationNumber (exAddForm ''R400'' ''12a'')) = []
         \<or> trim (ap_patientName (exAddForm ''R400'' ''12a'')) = []
         \<or> trim (ap_age (exAddForm ''R400'' ''12a'')) = []
         \<or> trim (ap_bedNumber (exAddForm ''R400'' ''12a'')) = []
         \<or> trim (ap_chiefComplaints (exAddForm ''R400'' ''12a'')) = []
         \<or> trim (ap_provisionalDiagnosis (exAddForm ''R400'' ''12a'')) = []
         \<or> trim (ap_number (exAddForm ''R400'' ''12a'')) = []
         \<or> notPositive (parseInt (ap_age (exAddForm ''R400'' ''12a'')))
         \<or> notPositive (parseInt (ap_bedNumber (exAddForm ''R400'' ''12a''))))"
    by (simp add: exAddForm_def js_defs)
  show ?thesis
    using create_patient_validation
            [of False False "''2024-05-02''" "exAddForm ''R400'' ''  ''" exConn]
          create_patient_validation
            [of False False "''2024-05-02''" "exAddForm ''R400'' ''0''" exConn]
          create_patient_validation
            [of False False "''2024-05-02''" "exAddForm ''R400'' ''12a''" exConn]
          a b v
    by blast
qed

text \<open>
  Claim C8 as the specification states it: the bed number is optional, so a patient
  can be created with the bed number left out. The form below is valid in every other
  field and names a registration number no patient has; with the bed number left empty
  \<open>handleSubmit\<close> reports a validation error and inserts nothing.
\<close>

theorem create_patient_without_bed_number_rejected:
  "AddPatient_handleSubmit True False False ''2024-05-02'' (exAddForm ''R400'' []) exConn
     = (ValidationError ''All fields are required!'', exConn)
   \<and> ''R400'' \<notin> set (map p_registrationNumber (patients (tables exConn)))
   \<and> fst (AddPatient_handleSubmit True False False ''2024-05-02'' (exAddForm ''R400'' ''7'')
            exConn)
       = Success ''Patient added successfully!''"
  by (simp add: AddPatient_handleSubmit_def sql_find_patient_def sql_insert_patient_def
        conn_defs check_defs js_defs ex_defs Let_def)

end
